theory Spec2Isabelle
  imports Main "HOL-Library.Sublist" "HOL-Library.Char_ord" "HOL-Library.List_Lexorder"
begin

section \<open>Text as the script handles it\<close>

text \<open>
  The script \<^verbatim>\<open>web_recon.py\<close> is a Python 3 program. A Python string is a sequence of
  code points; it is modelled as a \<^typ>\<open>string\<close>, the bytes of its UTF-8 encoding, and
  \<open>chars\<close> cuts such a text into its characters, each one given by the bytes that encode
  it: a byte from \<open>0x80\<close> to \<open>0xBF\<close> continues the character before it. On text that
  decodes, the characters are the code points, a substring of bytes is a substring of code
  points, and the lexicographic order on bytes is Python's order on code points. The
  encoding of the locale, which \<^verbatim>\<open>open\<close> uses for the files and \<^verbatim>\<open>print\<close> for the
  console, is taken to be UTF-8.
\<close>

definition byte :: "char \<Rightarrow> nat" where
  "byte c = of_char c"

definition is_cont :: "char \<Rightarrow> bool" where
  "is_cont c = (0x80 \<le> byte c \<and> byte c \<le> 0xBF)"

fun chars :: "string \<Rightarrow> string list" where
  "chars [] = []"
| "chars (c # cs) =
     (case chars cs of
        [] \<Rightarrow> [[c]]
      | g # gs \<Rightarrow> if is_cont (hd g) then (c # g) # gs else [c] # g # gs)"

text \<open>
  White space is what \<^verbatim>\<open>str.isspace\<close> accepts, and what \<^verbatim>\<open>str.strip()\<close> and
  \<^verbatim>\<open>str.split()\<close> remove: U+0009 to U+000D, U+001C to U+001F, U+0020, U+0085, U+00A0,
  U+1680, U+2000 to U+200A, U+2028, U+2029, U+202F, U+205F and U+3000, here in UTF-8.
\<close>

definition space_chars :: "string list" where
  "space_chars =
     [[CHR 0x09], [CHR 0x0A], [CHR 0x0B], [CHR 0x0C], [CHR 0x0D],
      [CHR 0x1C], [CHR 0x1D], [CHR 0x1E], [CHR 0x1F], [CHR 0x20],
      [CHR 0xC2, CHR 0x85], [CHR 0xC2, CHR 0xA0],
      [CHR 0xE1, CHR 0x9A, CHR 0x80],
      [CHR 0xE2, CHR 0x80, CHR 0x80], [CHR 0xE2, CHR 0x80, CHR 0x81],
      [CHR 0xE2, CHR 0x80, CHR 0x82], [CHR 0xE2, CHR 0x80, CHR 0x83],
      [CHR 0xE2, CHR 0x80, CHR 0x84], [CHR 0xE2, CHR 0x80, CHR 0x85],
      [CHR 0xE2, CHR 0x80, CHR 0x86], [CHR 0xE2, CHR 0x80, CHR 0x87],
      [CHR 0xE2, CHR 0x80, CHR 0x88], [CHR 0xE2, CHR 0x80, CHR 0x89],
      [CHR 0xE2, CHR 0x80, CHR 0x8A],
      [CHR 0xE2, CHR 0x80, CHR 0xA8], [CHR 0xE2, CHR 0x80, CHR 0xA9],
      [CHR 0xE2, CHR 0x80, CHR 0xAF],
      [CHR 0xE2, CHR 0x81, CHR 0x9F],
      [CHR 0xE3, CHR 0x80, CHR 0x80]]"

definition is_space :: "string \<Rightarrow> bool" where
  "is_space g = (g \<in> set space_chars)"

text \<open>\<^verbatim>\<open>s.strip()\<close>.\<close>

definition strip :: "string \<Rightarrow> string" where
  "strip s = concat (rev (dropWhile is_space (rev (dropWhile is_space (chars s)))))"

text \<open>\<^verbatim>\<open>s.split()\<close>: the maximal runs of characters that are not white space.
  The first argument is the run read so far, the second the characters still to read.\<close>

fun split_ws :: "string \<Rightarrow> string list \<Rightarrow> string list" where
  "split_ws cur [] = (if cur = [] then [] else [cur])"
| "split_ws cur (g # gs) =
     (if is_space g then (if cur = [] then split_ws [] gs else cur # split_ws [] gs)
      else split_ws (cur @ g) gs)"

definition py_split :: "string \<Rightarrow> string list" where
  "py_split s = split_ws [] (chars s)"

text \<open>\<^verbatim>\<open>sub in s\<close> on strings: \<open>sub\<close> occurs in \<open>s\<close> as a contiguous piece.\<close>

fun contains :: "string \<Rightarrow> string \<Rightarrow> bool" where
  "contains sub [] = (sub = [])"
| "contains sub (c # cs) = (prefix sub (c # cs) \<or> contains sub cs)"

text \<open>
  A file opened with \<^verbatim>\<open>open(path, 'r')\<close> is read with universal newlines: each of
  \<^verbatim>\<open>\r\n\<close>, \<^verbatim>\<open>\r\<close> and \<^verbatim>\<open>\n\<close> ends a line and is handed to the program as
  \<^verbatim>\<open>\n\<close>. On a file that decodes, \<open>text_lines\<close> is what \<^verbatim>\<open>for line in f\<close> yields
  (every line with its terminator, the last one possibly without) and \<open>readline\<close> is
  the first \<^verbatim>\<open>f.readline()\<close> on a fresh handle (the empty string at end of file).
\<close>

fun universal_newlines :: "string \<Rightarrow> string" where
  "universal_newlines [] = []"
| "universal_newlines [c] = (if c = CHR 0x0D then [CHR 0x0A] else [c])"
| "universal_newlines (c # d # ds) =
     (if c = CHR 0x0D \<and> d = CHR 0x0A then CHR 0x0A # universal_newlines ds
      else if c = CHR 0x0D then CHR 0x0A # universal_newlines (d # ds)
      else c # universal_newlines (d # ds))"

fun iter_lines :: "string \<Rightarrow> string list" where
  "iter_lines [] = []"
| "iter_lines (c # cs) =
     (if c = CHR 0x0A then [c] # iter_lines cs
      else (case iter_lines cs of [] \<Rightarrow> [[c]] | l # ls \<Rightarrow> (c # l) # ls))"

definition text_lines :: "string \<Rightarrow> string list" where
  "text_lines content = iter_lines (universal_newlines content)"

definition readline :: "string \<Rightarrow> string" where
  "readline content = (case text_lines content of [] \<Rightarrow> [] | l # _ \<Rightarrow> l)"

text \<open>
  Reading decodes. The bytes of a file decode when each of its characters is a
  well-formed UTF-8 sequence (no overlong form, no surrogate, nothing above U+10FFFF);
  otherwise the strict decoder raises \<^verbatim>\<open>UnicodeDecodeError\<close>.
\<close>

fun wf_char :: "string \<Rightarrow> bool" where
  "wf_char [a] = (byte a < 0x80)"
| "wf_char [a, b] = (0xC2 \<le> byte a \<and> byte a \<le> 0xDF \<and> is_cont b)"
| "wf_char [a, b, c] =
     (((byte a = 0xE0 \<and> 0xA0 \<le> byte b \<and> byte b \<le> 0xBF)
       \<or> (0xE1 \<le> byte a \<and> byte a \<le> 0xEC \<and> is_cont b)
       \<or> (byte a = 0xED \<and> 0x80 \<le> byte b \<and> byte b \<le> 0x9F)
       \<or> (0xEE \<le> byte a \<and> byte a \<le> 0xEF \<and> is_cont b))
      \<and> is_cont c)"
| "wf_char [a, b, c, d] =
     (((byte a = 0xF0 \<and> 0x90 \<le> byte b \<and> byte b \<le> 0xBF)
       \<or> (0xF1 \<le> byte a \<and> byte a \<le> 0xF3 \<and> is_cont b)
       \<or> (byte a = 0xF4 \<and> 0x80 \<le> byte b \<and> byte b \<le> 0x8F))
      \<and> is_cont c \<and> is_cont d)"
| "wf_char _ = False"

definition utf8_valid :: "string \<Rightarrow> bool" where
  "utf8_valid s = list_all wf_char (chars s)"

text \<open>The bytes of the first line of a file, with its terminator as it is in the file.\<close>

fun first_raw_line :: "string \<Rightarrow> string" where
  "first_raw_line [] = []"
| "first_raw_line [c] = [c]"
| "first_raw_line (c # d # ds) =
     (if c = CHR 0x0A then [c]
      else if c = CHR 0x0D then (if d = CHR 0x0A then [c, d] else [c])
      else c # first_raw_line (d # ds))"

text \<open>\<^verbatim>\<open>str(n)\<close> for an integer: decimal digits, a minus sign when negative.\<close>

definition digit :: "nat \<Rightarrow> char" where
  "digit d = ''0123456789'' ! d"

fun str_nat :: "nat \<Rightarrow> string" where
  "str_nat n = (if n < 10 then [digit n] else str_nat (n div 10) @ [digit (n mod 10)])"

definition str_int :: "int \<Rightarrow> string" where
  "str_int i = (if i < 0 then ''-'' @ str_nat (nat (- i)) else str_nat (nat i))"

section \<open>The world the script runs in\<close>

text \<open>
  What the script does besides computing is made explicit. A \<open>world\<close> holds the files
  (a path is absent or has a text) and the trace of the script's own effects, in order:
  the lines it prints, the files it writes and opens for reading, and the commands it
  hands to \<^verbatim>\<open>subprocess.run\<close>. A file is the sequence of its bytes. Directories are
  not modelled; a file that exists can be opened, and writing a file under the workspace
  succeeds.
\<close>

type_synonym path = string

text \<open>The exceptions the model tells apart. The string one carries is its message, for the
  reader; what the script prints of an exception is \<open>exn_text E e\<close>.\<close>

datatype exn =
    CalledProcessError "string list" int
  | FileNotFoundError string
  | PermissionError string
  | IndexError string
  | ValueError string
  | AttributeError string
  | TypeError string
  | UnicodeDecodeError string
  | OtherException string

datatype event =
    Print string
  | Write path string
  | Read path
  | Exec "string list"

datatype proc_result = Exited int | LaunchFailed exn

datatype json =
    JNull
  | JBool bool
  | JInt int
  | JFloat string
  | JString string
  | JArray "json list"
  | JObject "(string \<times> json) list"

text \<open>
  Everything outside the script is a parameter \<open>E\<close>, and the theorems hold for every
  \<open>E\<close>:
  \<^item> \<open>exec\<close>: what running a command does. It sees the trace so far, the argument
    vector and the files, and gives how the process ended (its exit status, or the error
    that kept it from starting), what it wrote to its standard output, and the files
    afterwards.
  \<^item> \<open>json_load\<close>: \<^verbatim>\<open>json.load\<close> on an open file, given the bytes of the file: the
    exception raised by reading, decoding or parsing them, or the parsed value (a
    \<open>JObject\<close> lists the items of the resulting dict, each key once).
  \<^item> \<open>read_ahead_fails\<close>: \<^verbatim>\<open>readline\<close> reads a file in blocks whose size depends on
    the platform, and decodes a whole block. For a file whose first line decodes and
    that has a byte sequence that does not decode further on, this says whether such a
    sequence is in the blocks read for the first line.
  \<^item> \<open>netloc_check\<close>: the validation \<^verbatim>\<open>urllib.parse\<close> applies to a bracketed or
    non-ASCII network location; it is asked about no other.
  \<^item> \<open>exn_text\<close>: \<^verbatim>\<open>str(e)\<close> of an exception.
\<close>

record env =
  exec :: "event list \<Rightarrow> string list \<Rightarrow> (path \<rightharpoonup> string) \<Rightarrow> proc_result \<times> string \<times> (path \<rightharpoonup> string)"
  json_load :: "string \<Rightarrow> exn + json"
  netloc_check :: "string \<Rightarrow> exn option"
  exn_text :: "exn \<Rightarrow> string"
  read_ahead_fails :: "string \<Rightarrow> bool"

record world =
  files :: "path \<rightharpoonup> string"
  trace :: "event list"

definition py_print :: "string \<Rightarrow> world \<Rightarrow> world" where
  "py_print s w = w\<lparr>trace := trace w @ [Print s]\<rparr>"

definition write_file :: "path \<Rightarrow> string \<Rightarrow> world \<Rightarrow> world" where
  "write_file p s w = w\<lparr>files := (files w)(p \<mapsto> s), trace := trace w @ [Write p s]\<rparr>"

definition read_file :: "path \<Rightarrow> world \<Rightarrow> world" where
  "read_file p w = w\<lparr>trace := trace w @ [Read p]\<rparr>"

text \<open>
  \<^verbatim>\<open>subprocess.run(cmd, check=True)\<close>, with the standard output inherited or discarded
  (\<open>None\<close>) or sent to an open file (\<open>Some p\<close>). A process that could not be started
  raises the launch error, an exit status other than 0 raises \<^verbatim>\<open>CalledProcessError\<close>.
\<close>

definition subprocess_run :: "env \<Rightarrow> string list \<Rightarrow> path option \<Rightarrow> world \<Rightarrow> (exn + unit) \<times> world" where
  "subprocess_run E cmd out w =
     (case exec E (trace w) cmd (files w) of
        (r, text, fs) \<Rightarrow>
          let fs' = (case out of None \<Rightarrow> fs | Some p \<Rightarrow> fs(p \<mapsto> text));
              w' = w\<lparr>files := fs', trace := trace w @ [Exec cmd]\<rparr>
          in (case r of
                LaunchFailed e \<Rightarrow> (Inl e, w')
              | Exited rc \<Rightarrow>
                  if rc \<noteq> 0 then (Inl (CalledProcessError cmd rc), w') else (Inr (), w')))"

text \<open>
  \<^verbatim>\<open>for line in f\<close> to the end of a file opened for reading: the lines, or the
  \<^verbatim>\<open>UnicodeDecodeError\<close> of the decoder (what the loop did with the lines before the
  error is lost with the exception). \<^verbatim>\<open>f.readline()\<close> on a fresh handle: the first
  line, unless the decoder raises on the blocks read for it.
\<close>

definition read_lines :: "path \<Rightarrow> string \<Rightarrow> exn + string list" where
  "read_lines p content =
     (if utf8_valid content then Inr (text_lines content) else Inl (UnicodeDecodeError p))"

definition py_readline :: "env \<Rightarrow> path \<Rightarrow> string \<Rightarrow> exn + string" where
  "py_readline E p content =
     (if utf8_valid content then Inr (readline content)
      else if utf8_valid (first_raw_line content) \<and> \<not> read_ahead_fails E content
      then Inr (readline content)
      else Inl (UnicodeDecodeError p))"

text \<open>The projections of a trace used to state what a step did.\<close>

fun prints :: "event list \<Rightarrow> string list" where
  "prints [] = []"
| "prints (Print s # evs) = s # prints evs"
| "prints (_ # evs) = prints evs"

fun execs :: "event list \<Rightarrow> string list list" where
  "execs [] = []"
| "execs (Exec cmd # evs) = cmd # execs evs"
| "execs (_ # evs) = execs evs"

fun writes :: "event list \<Rightarrow> (path \<times> string) list" where
  "writes [] = []"
| "writes (Write p s # evs) = (p, s) # writes evs"
| "writes (_ # evs) = writes evs"

section \<open>The runner\<close>

subsection \<open>Construction and banner\<close>

text \<open>The two marks of the status lines, U+2713 and U+2717, in UTF-8.\<close>

definition check_mark :: string where
  "check_mark = [CHR 0xE2, CHR 0x9C, CHR 0x93]"

definition cross_mark :: string where
  "cross_mark = [CHR 0xE2, CHR 0x9C, CHR 0x97]"

text \<open>
  Paths are \<^verbatim>\<open>pathlib\<close> paths of a POSIX system. \<open>py_path s\<close> is \<^verbatim>\<open>Path(s)\<close>: the
  anchor (\<open>/\<close>, or \<open>//\<close> for exactly two leading slashes, or none) and the parts
  between the slashes, without the empty ones and the dots. \<open>path_div\<close> is the operator
  \<^verbatim>\<open>/\<close> with a string on the right, \<open>path_str\<close> is \<^verbatim>\<open>str\<close>, and \<open>path_join P name\<close>
  is the text of \<^verbatim>\<open>P / name\<close>, by which a file is opened and named to the tools.
\<close>

record pypath =
  anchor :: string
  parts :: "string list"

fun split_slash :: "string \<Rightarrow> string list" where
  "split_slash [] = [[]]"
| "split_slash (c # cs) =
     (if c = CHR ''/'' then [] # split_slash cs
      else (case split_slash cs of [] \<Rightarrow> [[c]] | p # ps \<Rightarrow> (c # p) # ps))"

definition py_path :: "string \<Rightarrow> pypath" where
  "py_path s =
     \<lparr> anchor = (if take 2 s = ''//'' \<and> take 3 s \<noteq> ''///'' then ''//''
                 else if take 1 s = ''/'' then ''/'' else []),
       parts = filter (\<lambda>p. p \<noteq> [] \<and> p \<noteq> ''.'') (split_slash s) \<rparr>"

definition path_div :: "pypath \<Rightarrow> string \<Rightarrow> pypath" where
  "path_div P name =
     (let Q = py_path name
      in if anchor Q \<noteq> [] then Q else \<lparr> anchor = anchor P, parts = parts P @ parts Q \<rparr>)"

fun join_slash :: "string list \<Rightarrow> string" where
  "join_slash [] = []"
| "join_slash [p] = p"
| "join_slash (p # q # ps) = p @ ''/'' @ join_slash (q # ps)"

definition path_str :: "pypath \<Rightarrow> string" where
  "path_str P = (if anchor P = [] \<and> parts P = [] then ''.'' else anchor P @ join_slash (parts P))"

definition path_join :: "pypath \<Rightarrow> string \<Rightarrow> path" where
  "path_join P name = path_str (path_div P name)"

record recon =
  domain :: string
  threads :: int
  output_dir :: pypath
  subdomain_file :: path
  alive_file :: path
  wayback_file :: path
  nuclei_file :: path
  katana_file :: path
  js_files :: path
  gau_file :: path
  subdomain_takeover_file :: path
  ffuf_file :: path

text \<open>\<^verbatim>\<open>__init__\<close>; the \<^verbatim>\<open>mkdir\<close> of the workspace is outside the model. The fields for
  the files hold the text of their paths.\<close>

definition init :: "string \<Rightarrow> string \<Rightarrow> int \<Rightarrow> recon" where
  "init target out_dir n =
     (let d = py_path out_dir
      in \<lparr> domain = target, threads = n, output_dir = d,
            subdomain_file = path_join d ''subdomains.txt'',
            alive_file = path_join d ''alive.txt'',
            wayback_file = path_join d ''waybackurls.txt'',
            nuclei_file = path_join d ''nuclei_results.json'',
            katana_file = path_join d ''katana_crawl.txt'',
            js_files = path_join d ''js_files.txt'',
            gau_file = path_join d ''gau_urls.txt'',
            subdomain_takeover_file = path_join d ''subdomain_takeover.txt'',
            ffuf_file = path_join d ''ffuf_results.json'' \<rparr>)"

definition banner :: string where
  "banner =
     ''\<newline>'' @ [CHR 0xE2, CHR 0x95, CHR 0x94]
       @ concat (replicate 78 [CHR 0xE2, CHR 0x95, CHR 0x90]) @ [CHR 0xE2, CHR 0x95, CHR 0x97]
     @ ''\<newline>'' @ [CHR 0xE2, CHR 0x95, CHR 0x91] @ replicate 27 (CHR '' '')
       @ ''Web Security Recon Tool'' @ replicate 27 (CHR '' '') @ [CHR 0xE2, CHR 0x95, CHR 0x91]
     @ ''\<newline>'' @ [CHR 0xE2, CHR 0x95, CHR 0x91] @ replicate 22 (CHR '' '')
       @ ''Comprehensive Bug Hunting Suite'' @ replicate 24 (CHR '' '') @ [CHR 0xE2, CHR 0x95, CHR 0x91]
     @ ''\<newline>'' @ [CHR 0xE2, CHR 0x95, CHR 0x9A]
       @ concat (replicate 78 [CHR 0xE2, CHR 0x95, CHR 0x90]) @ [CHR 0xE2, CHR 0x95, CHR 0x9D]
     @ ''\<newline>'' @ replicate 8 (CHR '' '')"

definition print_banner :: "world \<Rightarrow> world" where
  "print_banner w = py_print banner w"

subsection \<open>Dependency check\<close>

definition check_tool_installed :: "env \<Rightarrow> string \<Rightarrow> world \<Rightarrow> (exn + bool) \<times> world" where
  "check_tool_installed E tool_name w =
     (case subprocess_run E [tool_name, ''-h''] None w of
        (Inr _, w') \<Rightarrow> (Inr True, w')
      | (Inl (CalledProcessError c rc), w') \<Rightarrow> (Inr False, w')
      | (Inl (FileNotFoundError m), w') \<Rightarrow> (Inr False, w')
      | (Inl e, w') \<Rightarrow> (Inl e, w'))"

definition tools :: "(string \<times> string) list" where
  "tools =
     [(''subfinder'', ''go install -v github.com/projectdiscovery/subfinder/v2/cmd/subfinder@latest''),
      (''httpx'', ''go install -v github.com/projectdiscovery/httpx/cmd/httpx@latest''),
      (''waybackurls'', ''go install github.com/tomnomnom/waybackurls@latest''),
      (''nuclei'', ''go install -v github.com/projectdiscovery/nuclei/v3/cmd/nuclei@latest''),
      (''katana'', ''go install github.com/projectdiscovery/katana/cmd/katana@latest''),
      (''gau'', ''go install github.com/lc/gau/v2/cmd/gau@latest''),
      (''ffuf'', ''go install github.com/ffuf/ffuf/v2@latest''),
      (''subjack'', ''go install github.com/haccer/subjack@latest'')]"

text \<open>The loop over the tools; the second argument is the list \<^verbatim>\<open>missing\<close> so far. An
  exception of a probe that is not caught leaves the loop.\<close>

fun check_tools :: "env \<Rightarrow> (string \<times> string) list \<Rightarrow> (string \<times> string) list \<Rightarrow> world
    \<Rightarrow> (exn + (string \<times> string) list) \<times> world" where
  "check_tools E [] missing w = (Inr missing, w)"
| "check_tools E ((tool, install) # rest) missing w =
     (case check_tool_installed E tool w of
        (Inl e, w1) \<Rightarrow> (Inl e, w1)
      | (Inr ok, w1) \<Rightarrow>
          if \<not> ok
          then check_tools E rest (missing @ [(tool, install)])
                 (py_print (''    '' @ cross_mark @ '' '' @ tool @ '' is missing'') w1)
          else check_tools E rest missing
                 (py_print (''    '' @ check_mark @ '' '' @ tool @ '' is installed'') w1))"

fun print_missing :: "(string \<times> string) list \<Rightarrow> world \<Rightarrow> world" where
  "print_missing [] w = w"
| "print_missing ((tool, cmd) # rest) w = print_missing rest (py_print (tool @ '': '' @ cmd) w)"

definition check_dependencies :: "env \<Rightarrow> world \<Rightarrow> (exn + bool) \<times> world" where
  "check_dependencies E w0 =
     (let w1 = py_print ''[+] Checking dependencies...'' w0
      in case check_tools E tools [] w1 of
           (Inl e, w2) \<Rightarrow> (Inl e, w2)
         | (Inr missing, w2) \<Rightarrow>
             if missing \<noteq> []
             then (Inr False, print_missing missing (py_print ''\<newline>[!] Missing tools:'' w2))
             else (Inr True, w2))"

subsection \<open>The steps that run one tool\<close>

text \<open>
  Each step prints its start marker, checks its precondition file if it has one, builds
  the argument vector, and runs the tool inside \<^verbatim>\<open>try\<close> ... \<^verbatim>\<open>except Exception\<close>:
  whatever \<^verbatim>\<open>subprocess.run\<close> raises becomes the result \<open>False\<close>.
\<close>

definition run_subfinder :: "env \<Rightarrow> recon \<Rightarrow> world \<Rightarrow> bool \<times> world" where
  "run_subfinder E self w0 =
     (let w1 = py_print (''\<newline>[1/9] Running subfinder on '' @ domain self) w0
      in (let cmd = [''subfinder'', ''-d'', domain self, ''-o'', subdomain_file self, ''-all'', ''-silent'']
          in case subprocess_run E cmd None w1 of
               (Inr _, w2) \<Rightarrow> (True, py_print (''    '' @ check_mark @ '' Subdomain enumeration complete'') w2)
             | (Inl e, w2) \<Rightarrow>
                 (False, py_print (''    '' @ cross_mark @ '' subfinder failed: '' @ exn_text E e) w2)))"

definition run_httpx :: "env \<Rightarrow> recon \<Rightarrow> world \<Rightarrow> bool \<times> world" where
  "run_httpx E self w0 =
     (let w1 = py_print (''\<newline>[2/9] Running httpx'') w0
      in if files w1 (subdomain_file self) = None
         then (False, py_print (''    '' @ cross_mark @ '' subdomains.txt not found'') w1)
         else
           (let cmd = [''httpx'', ''-l'', subdomain_file self, ''-o'', alive_file self,
                         ''-title'', ''-tech-detect'', ''-status-code'', ''-content-length'',
                         ''-silent'', ''-threads'', str_int (threads self)]
            in case subprocess_run E cmd None w1 of
                 (Inr _, w2) \<Rightarrow> (True, py_print (''    '' @ check_mark @ '' Alive domains identified'') w2)
               | (Inl e, w2) \<Rightarrow>
                   (False, py_print (''    '' @ cross_mark @ '' httpx failed: '' @ exn_text E e) w2)))"

text \<open>The wayback step opens its output file for writing first (which creates or empties
  it) and sends the tool's standard output there; the \<^verbatim>\<open>open\<close> is inside the
  \<^verbatim>\<open>try\<close>.\<close>

definition run_waybackurls :: "env \<Rightarrow> recon \<Rightarrow> world \<Rightarrow> bool \<times> world" where
  "run_waybackurls E self w0 =
     (let w1 = py_print (''\<newline>[3/9] Running waybackurls'') w0;
          cmd = [''waybackurls'', domain self];
          w2 = write_file (wayback_file self) [] w1
      in case subprocess_run E cmd (Some (wayback_file self)) w2 of
           (Inr _, w3) \<Rightarrow> (True, py_print (''    '' @ check_mark @ '' Wayback URLs collected'') w3)
         | (Inl e, w3) \<Rightarrow>
             (False, py_print (''    '' @ cross_mark @ '' waybackurls failed: '' @ exn_text E e) w3))"

definition run_gau :: "env \<Rightarrow> recon \<Rightarrow> world \<Rightarrow> bool \<times> world" where
  "run_gau E self w0 =
     (let w1 = py_print (''\<newline>[4/9] Running gau'') w0
      in (let cmd = [''gau'', ''--threads'', str_int (threads self), ''--o'', gau_file self, domain self]
          in case subprocess_run E cmd None w1 of
               (Inr _, w2) \<Rightarrow> (True, py_print (''    '' @ check_mark @ '' gau URLs collected'') w2)
             | (Inl e, w2) \<Rightarrow>
                 (False, py_print (''    '' @ cross_mark @ '' gau failed: '' @ exn_text E e) w2)))"

definition run_katana_crawl :: "env \<Rightarrow> recon \<Rightarrow> world \<Rightarrow> bool \<times> world" where
  "run_katana_crawl E self w0 =
     (let w1 = py_print (''\<newline>[5/9] Running katana'') w0
      in if files w1 (alive_file self) = None
         then (False, py_print (''    '' @ cross_mark @ '' alive.txt not found'') w1)
         else
           (let cmd = [''katana'', ''-list'', alive_file self, ''-o'', katana_file self, ''-d'', ''3'',
                         ''-c'', str_int (threads self), ''-silent'', ''-js-crawl'']
            in case subprocess_run E cmd None w1 of
                 (Inr _, w2) \<Rightarrow> (True, py_print (''    '' @ check_mark @ '' Katana crawl complete'') w2)
               | (Inl e, w2) \<Rightarrow>
                   (False, py_print (''    '' @ cross_mark @ '' katana failed: '' @ exn_text E e) w2)))"

definition run_nuclei_scan :: "env \<Rightarrow> recon \<Rightarrow> world \<Rightarrow> bool \<times> world" where
  "run_nuclei_scan E self w0 =
     (let w1 = py_print (''\<newline>[7/9] Running nuclei scan'') w0
      in if files w1 (alive_file self) = None
         then (False, py_print (''    '' @ cross_mark @ '' alive.txt not found'') w1)
         else
           (let cmd = [''nuclei'', ''-l'', alive_file self, ''-o'', nuclei_file self,
                         ''-json'', ''-c'', str_int (threads self),
                         ''-severity'', ''critical,high,medium'', ''-silent'']
            in case subprocess_run E cmd None w1 of
                 (Inr _, w2) \<Rightarrow> (True, py_print (''    '' @ check_mark @ '' Nuclei scan complete'') w2)
               | (Inl e, w2) \<Rightarrow>
                   (False, py_print (''    '' @ cross_mark @ '' nuclei failed: '' @ exn_text E e) w2)))"

definition run_subdomain_takeover :: "env \<Rightarrow> recon \<Rightarrow> world \<Rightarrow> bool \<times> world" where
  "run_subdomain_takeover E self w0 =
     (let w1 = py_print (''\<newline>[8/9] Checking for subdomain takeover'') w0
      in if files w1 (subdomain_file self) = None
         then (False, py_print (''    '' @ cross_mark @ '' subdomains.txt not found'') w1)
         else
           (let cmd = [''subjack'', ''-w'', subdomain_file self, ''-o'', subdomain_takeover_file self,
                         ''-ssl'', ''-c'', str_int (threads self)]
            in case subprocess_run E cmd None w1 of
                 (Inr _, w2) \<Rightarrow> (True, py_print (''    '' @ check_mark @ '' Subdomain takeover check complete'') w2)
               | (Inl e, w2) \<Rightarrow>
                   (False, py_print (''    '' @ cross_mark @ '' subjack failed: '' @ exn_text E e) w2)))"

subsection \<open>Extraction of the JavaScript URLs\<close>

text \<open>
  The Python set \<^verbatim>\<open>js_urls\<close> is a list without repetitions: \<^verbatim>\<open>add\<close> is
  \<^const>\<open>List.insert\<close>, and the step only asks whether the set is empty, how many
  elements it has, and for its elements in sorted order. \<open>collect_js\<close> is the loop
  \<^verbatim>\<open>for line in f\<close> over the lines of one file.
\<close>

fun collect_js :: "string list \<Rightarrow> string list \<Rightarrow> string list" where
  "collect_js [] js_urls = js_urls"
| "collect_js (line # rest) js_urls =
     collect_js rest
       (if contains ''.js'' line \<or> contains ''/js/'' line
        then List.insert (strip line) js_urls else js_urls)"

text \<open>The two blocks that read a file (lines 150 to 160) are outside any \<^verbatim>\<open>try\<close>: an
  exception of the decoder leaves the step.\<close>

definition scan_file :: "path \<Rightarrow> string list \<times> world \<Rightarrow> (exn + string list) \<times> world" where
  "scan_file p st =
     (case st of (js_urls, w) \<Rightarrow>
        (case files w p of
           None \<Rightarrow> (Inr js_urls, w)
         | Some content \<Rightarrow>
             (case read_lines p content of
                Inl e \<Rightarrow> (Inl e, read_file p w)
              | Inr ls \<Rightarrow> (Inr (collect_js ls js_urls), read_file p w))))"

definition scan_files :: "recon \<Rightarrow> world \<Rightarrow> (exn + string list) \<times> world" where
  "scan_files self w =
     (case scan_file (katana_file self) ([], w) of
        (Inl e, w1) \<Rightarrow> (Inl e, w1)
      | (Inr js_urls, w1) \<Rightarrow> scan_file (wayback_file self) (js_urls, w1))"

definition extract_js_files :: "recon \<Rightarrow> world \<Rightarrow> (exn + bool) \<times> world" where
  "extract_js_files self w0 =
     (let w1 = py_print (''\<newline>[6/9] Extracting JS files'') w0
      in case scan_files self w1 of
           (Inl e, w2) \<Rightarrow> (Inl e, w2)
         | (Inr js_urls, w2) \<Rightarrow>
             if js_urls \<noteq> []
             then (let w3 = write_file (js_files self)
                              (concat (map (\<lambda>url. url @ ''\<newline>'') (sort js_urls))) w2
                   in (Inr True,
                       py_print (''    '' @ check_mark @ '' Found '' @ str_nat (length js_urls)
                                 @ '' JavaScript files'') w3))
             else (Inr False, py_print (''    '' @ cross_mark @ '' No JS files found'') w2))"

subsection \<open>Directory brute force\<close>

text \<open>
  \<^verbatim>\<open>urllib.parse.urlparse\<close>, as far as the step uses it: the scheme and the network
  location of the result, or the \<^verbatim>\<open>ValueError\<close> it raises (CPython 3.12). Leading
  control characters and spaces are dropped and tab, carriage return and line feed are
  removed; the text before the first colon is the scheme, in lower case, when it starts
  with an ASCII letter and consists of letters, digits, \<open>+\<close>, \<open>-\<close> and \<open>.\<close>; after
  \<open>//\<close> the network location runs up to the first of \<open>/\<close>, \<open>?\<close> and \<open>#\<close>.
\<close>

definition ascii_lower :: string where
  "ascii_lower = ''abcdefghijklmnopqrstuvwxyz''"

definition ascii_upper :: string where
  "ascii_upper = ''ABCDEFGHIJKLMNOPQRSTUVWXYZ''"

definition ascii_alpha :: "char \<Rightarrow> bool" where
  "ascii_alpha c = (c \<in> set (ascii_lower @ ascii_upper))"

definition scheme_char :: "char \<Rightarrow> bool" where
  "scheme_char c = (c \<in> set (ascii_lower @ ascii_upper @ ''0123456789'' @ ''+-.''))"

definition to_lower :: "char \<Rightarrow> char" where
  "to_lower c = (case map_of (zip ascii_upper ascii_lower) c of None \<Rightarrow> c | Some l \<Rightarrow> l)"

definition split_scheme :: "string \<Rightarrow> string \<times> string" where
  "split_scheme url =
     (let pre = takeWhile (\<lambda>c. c \<noteq> CHR '':'') url
      in if length pre < length url \<and> pre \<noteq> [] \<and> ascii_alpha (hd url) \<and> list_all scheme_char pre
         then (map to_lower pre, drop (length pre + 1) url)
         else ([], url))"

definition urlparse :: "env \<Rightarrow> string \<Rightarrow> exn + (string \<times> string)" where
  "urlparse E url0 =
     (let url1 = filter (\<lambda>c. c \<notin> set [CHR 0x09, CHR 0x0D, CHR 0x0A])
                   (dropWhile (\<lambda>c. byte c \<le> 0x20) url0)
      in case split_scheme url1 of
           (scheme, url2) \<Rightarrow>
             if take 2 url2 = ''//''
             then (let netloc = takeWhile (\<lambda>c. c \<notin> set ''/?#'') (drop 2 url2)
                   in if (CHR ''['' \<in> set netloc \<and> CHR '']'' \<notin> set netloc)
                         \<or> (CHR '']'' \<in> set netloc \<and> CHR ''['' \<notin> set netloc)
                      then Inl (ValueError ''Invalid IPv6 URL'')
                      else if CHR ''['' \<in> set netloc \<or> \<not> list_all (\<lambda>c. byte c < 0x80) netloc
                      then (case netloc_check E netloc of
                              Some e \<Rightarrow> Inl e
                            | None \<Rightarrow> Inr (scheme, netloc))
                      else Inr (scheme, netloc))
             else Inr (scheme, []))"

text \<open>Lines 229 and 230: the first white-space separated piece of the line is parsed and
  the target is put together from its scheme and network location.\<close>

definition base_url :: "env \<Rightarrow> string \<Rightarrow> exn + string" where
  "base_url E first_url =
     (case py_split first_url of
        [] \<Rightarrow> Inl (IndexError ''list index out of range'')
      | tok # _ \<Rightarrow>
          (case urlparse E tok of
             Inl e \<Rightarrow> Inl e
           | Inr (scheme, netloc) \<Rightarrow> Inr (scheme @ ''://'' @ netloc @ ''/FUZZ'')))"

text \<open>\<^verbatim>\<open>len(results.get("results", []))\<close>: only a dict has \<^verbatim>\<open>get\<close>, and only a list,
  a string or a dict has a length (of a string, its number of code points).\<close>

fun py_len :: "json \<Rightarrow> exn + nat" where
  "py_len (JArray xs) = Inr (length xs)"
| "py_len (JObject items) = Inr (length items)"
| "py_len (JString s) = Inr (length (chars s))"
| "py_len _ = Inl (TypeError ''object has no len()'')"

definition count_results :: "json \<Rightarrow> exn + nat" where
  "count_results results =
     (case results of
        JObject items \<Rightarrow>
          py_len (case map_of items ''results'' of None \<Rightarrow> JArray [] | Some v \<Rightarrow> v)
      | _ \<Rightarrow> Inl (AttributeError ''object has no attribute get''))"

definition common_dirs :: "string list" where
  "common_dirs =
     [''admin'', ''api'', ''login'', ''uploads'', ''img'', ''js'', ''css'',
      ''config'', ''.git'', ''.env'', ''dashboard'', ''assets'']"

text \<open>The argument vector of lines 232 to 240.\<close>

definition ffuf_cmd :: "recon \<Rightarrow> string \<Rightarrow> path \<Rightarrow> string list" where
  "ffuf_cmd self target wordlist =
     [''ffuf'', ''-u'', target,
      ''-w'', wordlist,
      ''-o'', ffuf_file self,
      ''-of'', ''json'',
      ''-t'', str_int (threads self),
      ''-mc'', ''200,204,301,302,307,403'',
      ''-fs'', ''0'']"

text \<open>The body of the \<^verbatim>\<open>try\<close> (lines 223 to 251): an exception raised in it, or the
  value it returns.\<close>

definition bruteforce_body :: "env \<Rightarrow> recon \<Rightarrow> path \<Rightarrow> world \<Rightarrow> (exn + bool) \<times> world" where
  "bruteforce_body E self wordlist w0 =
     (case files w0 (alive_file self) of
        None \<Rightarrow> (Inl (FileNotFoundError (alive_file self)), w0)
      | Some content \<Rightarrow>
          (let w1 = read_file (alive_file self) w0
           in case py_readline E (alive_file self) content of
                Inl e \<Rightarrow> (Inl e, w1)
              | Inr line \<Rightarrow>
           (let first_url = strip line
           in if first_url = []
              then (Inr False, py_print (''    '' @ cross_mark @ '' No URL in alive.txt'') w1)
              else
                (case base_url E first_url of
                   Inl e \<Rightarrow> (Inl e, w1)
                 | Inr target \<Rightarrow>
                     (let cmd = ffuf_cmd self target wordlist
                      in case subprocess_run E cmd None w1 of
                           (Inl e, w2) \<Rightarrow> (Inl e, w2)
                         | (Inr _, w2) \<Rightarrow>
                             (case files w2 (ffuf_file self) of
                                None \<Rightarrow>
                                  (Inr False,
                                   py_print (''    '' @ cross_mark @ '' ffuf output not found'') w2)
                              | Some text \<Rightarrow>
                                  (let w3 = read_file (ffuf_file self) w2
                                   in case json_load E text of
                                        Inl e \<Rightarrow> (Inl e, w3)
                                      | Inr results \<Rightarrow>
                                          (case count_results results of
                                             Inl e \<Rightarrow> (Inl e, w3)
                                           | Inr found \<Rightarrow>
                                               (Inr True,
                                                py_print (''    '' @ check_mark @ '' Found ''
                                                          @ str_nat found @ '' valid paths'') w3)))))))))"

definition run_directory_bruteforce :: "env \<Rightarrow> recon \<Rightarrow> world \<Rightarrow> bool \<times> world" where
  "run_directory_bruteforce E self w0 =
     (let w1 = py_print (''\<newline>[9/9] Running ffuf directory bruteforce'') w0
      in if files w1 (alive_file self) = None
         then (False, py_print (''    '' @ cross_mark @ '' alive.txt not found'') w1)
         else
           (let wordlist = path_join (output_dir self) ''common_dirs.txt'';
                w2 = write_file wordlist (concat (map (\<lambda>d. d @ ''\<newline>'') common_dirs)) w1
            in case bruteforce_body E self wordlist w2 of
                 (Inr r, w3) \<Rightarrow> (r, w3)
               | (Inl e, w3) \<Rightarrow>
                   (False, py_print (''    '' @ cross_mark @ '' ffuf failed: '' @ exn_text E e) w3)))"

subsection \<open>The run\<close>

text \<open>
  A step is called by the loop and returns \<open>True\<close> or \<open>False\<close>, or raises. The eight
  steps that run a tool return in every case, since all that may raise in them is inside
  their \<^verbatim>\<open>try\<close>; \<open>no_raise\<close> makes such a function a step. The list \<^verbatim>\<open>steps\<close> of
  \<^verbatim>\<open>start\<close> gives each function with its \<^verbatim>\<open>__name__\<close>.
\<close>

type_synonym step = "world \<Rightarrow> (exn + bool) \<times> world"

definition no_raise :: "(world \<Rightarrow> bool \<times> world) \<Rightarrow> step" where
  "no_raise func w = (case func w of (success, w1) \<Rightarrow> (Inr success, w1))"

definition steps :: "env \<Rightarrow> recon \<Rightarrow> (string \<times> step) list" where
  "steps E self =
     [(''run_subfinder'', no_raise (run_subfinder E self)),
      (''run_httpx'', no_raise (run_httpx E self)),
      (''run_waybackurls'', no_raise (run_waybackurls E self)),
      (''run_gau'', no_raise (run_gau E self)),
      (''run_katana_crawl'', no_raise (run_katana_crawl E self)),
      (''extract_js_files'', extract_js_files self),
      (''run_nuclei_scan'', no_raise (run_nuclei_scan E self)),
      (''run_subdomain_takeover'', no_raise (run_subdomain_takeover E self)),
      (''run_directory_bruteforce'', no_raise (run_directory_bruteforce E self))]"

text \<open>The loop \<^verbatim>\<open>for func in steps\<close> (lines 273 to 276). There is no \<^verbatim>\<open>try\<close> around
  the call: an exception raised by a step leaves the loop.\<close>

fun run_steps :: "(string \<times> step) list \<Rightarrow> world \<Rightarrow> (exn + unit) \<times> world" where
  "run_steps [] w = (Inr (), w)"
| "run_steps ((name, func) # rest) w =
     (case func w of
        (Inl e, w1) \<Rightarrow> (Inl e, w1)
      | (Inr success, w1) \<Rightarrow>
          run_steps rest
            (if \<not> success
             then py_print (''[!] Step '' @ [CHR 0x27] @ name @ [CHR 0x27] @ '' failed or was skipped.'') w1
             else w1))"

text \<open>Lines 261 to 279 of \<^verbatim>\<open>start\<close>: the loop and the two closing lines.\<close>

definition run_pipeline :: "env \<Rightarrow> recon \<Rightarrow> world \<Rightarrow> (exn + unit) \<times> world" where
  "run_pipeline E self w0 =
     (case run_steps (steps E self) w0 of
        (Inl e, w1) \<Rightarrow> (Inl e, w1)
      | (Inr _, w1) \<Rightarrow>
          (let w2 = py_print (''\<newline>['' @ check_mark @ ''] Web Security Recon Complete!'') w1
           in (Inr (), py_print (''[+] All results saved in: '' @ path_str (output_dir self)) w2)))"

text \<open>\<^verbatim>\<open>start\<close>: the result is the exception that ended the run, or a normal return.\<close>

definition start :: "env \<Rightarrow> recon \<Rightarrow> world \<Rightarrow> (exn + unit) \<times> world" where
  "start E self w0 =
     (let w1 = print_banner w0
      in case check_dependencies E w1 of
           (Inl e, w2) \<Rightarrow> (Inl e, w2)
         | (Inr ok, w2) \<Rightarrow>
             if \<not> ok then (Inr (), w2)
             else run_pipeline E self w2)"

section \<open>Notions used in the statements\<close>

text \<open>The two ways a probe \<^verbatim>\<open>tool -h\<close> can end that \<^verbatim>\<open>check_tool_installed\<close> names in
  its \<^verbatim>\<open>except\<close> clause, besides ending with status 0: the process exits with some status,
  or it cannot be started because the program is not found.\<close>

fun exits_or_not_found :: "proc_result \<Rightarrow> bool" where
  "exits_or_not_found (Exited rc) = True"
| "exits_or_not_found (LaunchFailed (FileNotFoundError m)) = True"
| "exits_or_not_found (LaunchFailed _) = False"

text \<open>The start markers of the nine steps, in the order of the list \<^verbatim>\<open>steps\<close>, and the
  start markers that occur among the printed lines of a world, in the order they were
  printed: the steps that have been attempted.\<close>

definition step_starts :: "recon \<Rightarrow> string list" where
  "step_starts self =
     [''\<newline>[1/9] Running subfinder on '' @ domain self,
      ''\<newline>[2/9] Running httpx'',
      ''\<newline>[3/9] Running waybackurls'',
      ''\<newline>[4/9] Running gau'',
      ''\<newline>[5/9] Running katana'',
      ''\<newline>[6/9] Extracting JS files'',
      ''\<newline>[7/9] Running nuclei scan'',
      ''\<newline>[8/9] Checking for subdomain takeover'',
      ''\<newline>[9/9] Running ffuf directory bruteforce'']"

definition started :: "recon \<Rightarrow> world \<Rightarrow> string list" where
  "started self w = filter (\<lambda>s. s \<in> set (step_starts self)) (prints (trace w))"

text \<open>The text that \<^verbatim>\<open>P / name\<close> puts before a plain file name.\<close>

definition dir_prefix :: "pypath \<Rightarrow> string" where
  "dir_prefix P = anchor P @ (if parts P = [] then [] else join_slash (parts P) @ ''/'')"

text \<open>The set of JavaScript URLs in the words of the specification: the lines of the crawl
  output and of the wayback file (a file that is absent has none) that contain \<^verbatim>\<open>.js\<close>
  or \<^verbatim>\<open>/js/\<close>, stripped, as a set. A file can be read as text when it is absent or its
  bytes decode.\<close>

definition source_lines :: "recon \<Rightarrow> world \<Rightarrow> string list" where
  "source_lines self w =
     (case files w (katana_file self) of None \<Rightarrow> [] | Some content \<Rightarrow> text_lines content)
     @ (case files w (wayback_file self) of None \<Rightarrow> [] | Some content \<Rightarrow> text_lines content)"

definition js_url_set :: "recon \<Rightarrow> world \<Rightarrow> string set" where
  "js_url_set self w =
     strip ` {l \<in> set (source_lines self w). contains ''.js'' l \<or> contains ''/js/'' l}"

definition decodable :: "world \<Rightarrow> path \<Rightarrow> bool" where
  "decodable w p = (case files w p of None \<Rightarrow> True | Some content \<Rightarrow> utf8_valid content)"

section \<open>Example runs\<close>

text \<open>
  Concrete inputs on which the theorems below are instantiated. The workspace is the
  default \<^verbatim>\<open>web_recon\<close>. In \<open>example_env r wr\<close> every command ends with \<open>r\<close>,
  prints nothing, and leaves the text \<open>t\<close> in the file \<open>p\<close> when \<open>wr = Some (p, t)\<close>;
  in \<open>example_env_missing tool\<close> the probe of \<open>tool\<close> finds no such program and every
  other command ends with status 0; both read ahead to the end of a file;
  \<open>toy_json_load\<close> agrees with \<^verbatim>\<open>json.load\<close> on the texts \<^verbatim>\<open>[]\<close>, \<^verbatim>\<open>{}\<close> and
  \<^verbatim>\<open>not json\<close>, the only ones it is applied to.
\<close>

definition example_recon :: recon where
  "example_recon = init ''example.com'' ''web_recon'' 10"

definition toy_json_load :: "string \<Rightarrow> exn + json" where
  "toy_json_load s =
     (if s = ''[]'' then Inr (JArray [])
      else if s = ''{}'' then Inr (JObject [])
      else Inl (ValueError ''Expecting value: line 1 column 1 (char 0)''))"

definition example_env :: "proc_result \<Rightarrow> (path \<times> string) option \<Rightarrow> env" where
  "example_env r wr =
     \<lparr> exec = (\<lambda>h cmd fs. (r, [], case wr of None \<Rightarrow> fs | Some (p, t) \<Rightarrow> fs(p \<mapsto> t))),
       json_load = toy_json_load,
       netloc_check = (\<lambda>s. None),
       exn_text = (\<lambda>e. ''error''),
       read_ahead_fails = (\<lambda>s. True) \<rparr>"


definition example_world :: "(path \<times> string) list \<Rightarrow> world" where
  "example_world fs = \<lparr> files = map_of fs, trace = [] \<rparr>"

definition alive_line :: string where
  "alive_line = ''https://example.com [200] Title''"

section \<open>Basic facts\<close>

lemma py_print_simps [simp]:
  "trace (py_print s w) = trace w @ [Print s]" "files (py_print s w) = files w"
  by (simp_all add: py_print_def)

lemma write_file_simps [simp]:
  "trace (write_file p s w) = trace w @ [Write p s]"
  "files (write_file p s w) = (files w)(p \<mapsto> s)"
  by (simp_all add: write_file_def)

lemma read_file_simps [simp]:
  "trace (read_file p w) = trace w @ [Read p]" "files (read_file p w) = files w"
  by (simp_all add: read_file_def)

lemma prints_append [simp]: "prints (xs @ ys) = prints xs @ prints ys"
  by (induction xs rule: prints.induct) simp_all

lemma execs_append [simp]: "execs (xs @ ys) = execs xs @ execs ys"
  by (induction xs rule: execs.induct) simp_all

lemma writes_append [simp]: "writes (xs @ ys) = writes xs @ writes ys"
  by (induction xs rule: writes.induct) simp_all

lemma subprocess_run_trace: "trace (snd (subprocess_run E cmd out w)) = trace w @ [Exec cmd]"
  by (simp add: subprocess_run_def Let_def split: prod.splits proc_result.splits)

lemma init_simps [simp]:
  "domain (init t d n) = t" "threads (init t d n) = n" "output_dir (init t d n) = py_path d"
  "subdomain_file (init t d n) = path_join (py_path d) ''subdomains.txt''"
  "alive_file (init t d n) = path_join (py_path d) ''alive.txt''"
  "wayback_file (init t d n) = path_join (py_path d) ''waybackurls.txt''"
  "nuclei_file (init t d n) = path_join (py_path d) ''nuclei_results.json''"
  "katana_file (init t d n) = path_join (py_path d) ''katana_crawl.txt''"
  "js_files (init t d n) = path_join (py_path d) ''js_files.txt''"
  "gau_file (init t d n) = path_join (py_path d) ''gau_urls.txt''"
  "subdomain_takeover_file (init t d n) = path_join (py_path d) ''subdomain_takeover.txt''"
  "ffuf_file (init t d n) = path_join (py_path d) ''ffuf_results.json''"
  by (simp_all add: init_def Let_def)

lemma split_slash_plain: "CHR ''/'' \<notin> set name \<Longrightarrow> split_slash name = [name]"
  by (induction name) auto

lemma join_slash_snoc:
  "join_slash (ps @ [a]) = (if ps = [] then a else join_slash ps @ ''/'' @ a)"
  by (induction ps rule: join_slash.induct) auto

lemma path_join_plain:
  assumes "CHR ''/'' \<notin> set name" and "name \<noteq> []" and "name \<noteq> ''.''"
  shows "path_join P name = dir_prefix P @ name"
proof -
  from assms(1,2) have "take 1 name \<noteq> ''/''" and "take 2 name \<noteq> ''//''"
    by (cases name; cases "tl name"; auto)+
  with assms have "py_path name = \<lparr> anchor = [], parts = [name] \<rparr>"
    by (simp add: py_path_def split_slash_plain)
  then show ?thesis
    using assms(2) by (simp add: path_join_def path_div_def path_str_def dir_prefix_def join_slash_snoc)
qed

lemma path_join_names [simp]:
  "path_join P ''subdomains.txt'' = dir_prefix P @ ''subdomains.txt''"
  "path_join P ''alive.txt'' = dir_prefix P @ ''alive.txt''"
  "path_join P ''waybackurls.txt'' = dir_prefix P @ ''waybackurls.txt''"
  "path_join P ''nuclei_results.json'' = dir_prefix P @ ''nuclei_results.json''"
  "path_join P ''katana_crawl.txt'' = dir_prefix P @ ''katana_crawl.txt''"
  "path_join P ''js_files.txt'' = dir_prefix P @ ''js_files.txt''"
  "path_join P ''gau_urls.txt'' = dir_prefix P @ ''gau_urls.txt''"
  "path_join P ''subdomain_takeover.txt'' = dir_prefix P @ ''subdomain_takeover.txt''"
  "path_join P ''ffuf_results.json'' = dir_prefix P @ ''ffuf_results.json''"
  "path_join P ''common_dirs.txt'' = dir_prefix P @ ''common_dirs.txt''"
  by (simp_all add: path_join_plain)

lemma example_dir [simp]:
  "dir_prefix (py_path ''web_recon'') = ''web_recon/''" "path_str (py_path ''web_recon'') = ''web_recon''"
  by (simp_all add: dir_prefix_def py_path_def path_str_def)

section \<open>Directory brute force: the word list\<close>

lemma bruteforce_body_trace:
  "files w (alive_file self) \<noteq> None \<Longrightarrow>
   prefix (trace w @ [Read (alive_file self)]) (trace (snd (bruteforce_body E self wl w)))"
  by (simp add: bruteforce_body_def Let_def case_prod_beta subprocess_run_trace
           split: option.split sum.split)

lemma bruteforce_body_writes:
  "writes (trace (snd (bruteforce_body E self wl w))) = writes (trace w)"
  by (simp add: bruteforce_body_def Let_def case_prod_beta subprocess_run_trace
           split: option.split sum.split)

lemma wordlist_text:
  "concat (map (\<lambda>d. d @ ''\<newline>'') common_dirs) =
   ''admin\<newline>api\<newline>login\<newline>uploads\<newline>img\<newline>js\<newline>css\<newline>config\<newline>.git\<newline>.env\<newline>dashboard\<newline>assets\<newline>''"
  by (simp add: common_dirs_def)

text \<open>
  Claim C7. Whatever the environment, the object and the world are, the files the
  directory brute-force step writes are: none when the alive-host file is absent, and
  otherwise exactly one, \<^verbatim>\<open>common_dirs.txt\<close> in the workspace, whose text is the twelve
  fixed path segments in the order of the source, each followed by a line feed.
\<close>

theorem wordlist_content:
  "writes (trace (snd (run_directory_bruteforce E self w))) =
     writes (trace w) @
       (if files w (alive_file self) = None then []
        else [(path_join (output_dir self) ''common_dirs.txt'',
               ''admin\<newline>api\<newline>login\<newline>uploads\<newline>img\<newline>js\<newline>css\<newline>config\<newline>.git\<newline>.env\<newline>dashboard\<newline>assets\<newline>'')])"
  by (simp add: run_directory_bruteforce_def Let_def case_prod_beta bruteforce_body_writes
        wordlist_text split: sum.split)

theorem wordlist_content_witness:
  "writes (trace (snd (run_directory_bruteforce (example_env (Exited 1) None) example_recon
      (example_world [(''web_recon/alive.txt'', alive_line)])))) =
   [(''web_recon/common_dirs.txt'',
     ''admin\<newline>api\<newline>login\<newline>uploads\<newline>img\<newline>js\<newline>css\<newline>config\<newline>.git\<newline>.env\<newline>dashboard\<newline>assets\<newline>'')]"
  using wordlist_content [of "example_env (Exited 1) None" example_recon
      "example_world [(''web_recon/alive.txt'', alive_line)]"]
  by (simp add: example_recon_def example_world_def)

text \<open>
  Claim C9. When the alive-host file exists, the trace of the directory brute-force step
  begins with its start marker, then the write of the word list, and only then the
  opening of the alive-host file; this holds for every outcome of the step, so the word
  list has been written on the runs that end in failure too.
\<close>

theorem wordlist_before_first_line:
  "files w (alive_file self) \<noteq> None \<Longrightarrow>
   prefix (trace w @ [Print ''\<newline>[9/9] Running ffuf directory bruteforce'',
                      Write (path_join (output_dir self) ''common_dirs.txt'')
                        (concat (map (\<lambda>d. d @ ''\<newline>'') common_dirs)),
                      Read (alive_file self)])
          (trace (snd (run_directory_bruteforce E self w)))"
proof -
  assume a: "files w (alive_file self) \<noteq> None"
  let ?wl = "path_join (output_dir self) ''common_dirs.txt''"
  let ?w2 = "write_file ?wl (concat (map (\<lambda>d. d @ ''\<newline>'') common_dirs))
               (py_print ''\<newline>[9/9] Running ffuf directory bruteforce'' w)"
  have "files ?w2 (alive_file self) \<noteq> None" using a by simp
  from bruteforce_body_trace [OF this, of E ?wl]
  have p: "prefix (trace ?w2 @ [Read (alive_file self)])
             (trace (snd (bruteforce_body E self ?wl ?w2)))" .
  show ?thesis
  proof (cases "bruteforce_body E self ?wl ?w2")
    case (Pair r w3)
    with p a show ?thesis
      by (cases r) (auto simp: run_directory_bruteforce_def Let_def intro: prefix_order.trans)
  qed
qed

theorem wordlist_before_first_line_witness:
  "files (example_world [(''web_recon/alive.txt'', ''  \<newline>https://example.com'')])
      (alive_file example_recon) \<noteq> None
   \<and> fst (run_directory_bruteforce (example_env (Exited 0) None) example_recon
         (example_world [(''web_recon/alive.txt'', ''  \<newline>https://example.com'')])) = False
   \<and> prefix [Print ''\<newline>[9/9] Running ffuf directory bruteforce'',
              Write ''web_recon/common_dirs.txt''
                ''admin\<newline>api\<newline>login\<newline>uploads\<newline>img\<newline>js\<newline>css\<newline>config\<newline>.git\<newline>.env\<newline>dashboard\<newline>assets\<newline>'',
              Read ''web_recon/alive.txt'']
        (trace (snd (run_directory_bruteforce (example_env (Exited 0) None) example_recon
           (example_world [(''web_recon/alive.txt'', ''  \<newline>https://example.com'')]))))"
proof -
  let ?w = "example_world [(''web_recon/alive.txt'', ''  \<newline>https://example.com'')]"
  have a: "files ?w (alive_file example_recon) \<noteq> None"
    by (simp add: example_world_def example_recon_def)
  have f: "fst (run_directory_bruteforce (example_env (Exited 0) None) example_recon ?w) = False"
    by (simp add: run_directory_bruteforce_def bruteforce_body_def Let_def example_world_def
          example_recon_def readline_def text_lines_def strip_def is_space_def
          space_chars_def is_cont_def byte_def py_readline_def utf8_valid_def)
  from wordlist_before_first_line [OF a, of "example_env (Exited 0) None"] a f
  show ?thesis
    by (simp add: example_world_def example_recon_def wordlist_text)
qed

section \<open>Precondition files\<close>

lemma run_steps_failed:
  "fst (func w) = False \<Longrightarrow>
   run_steps ((name, no_raise func) # rest) w =
     run_steps rest
       (py_print (''[!] Step '' @ [CHR 0x27] @ name @ [CHR 0x27] @ '' failed or was skipped.'')
          (snd (func w)))"
  by (simp add: no_raise_def case_prod_beta)

lemma run_httpx_gated:
  "files w (subdomain_file self) = None \<Longrightarrow>
   run_httpx E self w =
     (False, py_print (''    '' @ cross_mark @ '' subdomains.txt not found'')
               (py_print ''\<newline>[2/9] Running httpx'' w))"
  by (simp add: run_httpx_def Let_def)

lemma run_katana_crawl_gated:
  "files w (alive_file self) = None \<Longrightarrow>
   run_katana_crawl E self w =
     (False, py_print (''    '' @ cross_mark @ '' alive.txt not found'')
               (py_print ''\<newline>[5/9] Running katana'' w))"
  by (simp add: run_katana_crawl_def Let_def)

lemma run_nuclei_scan_gated:
  "files w (alive_file self) = None \<Longrightarrow>
   run_nuclei_scan E self w =
     (False, py_print (''    '' @ cross_mark @ '' alive.txt not found'')
               (py_print ''\<newline>[7/9] Running nuclei scan'' w))"
  by (simp add: run_nuclei_scan_def Let_def)

lemma run_subdomain_takeover_gated:
  "files w (subdomain_file self) = None \<Longrightarrow>
   run_subdomain_takeover E self w =
     (False, py_print (''    '' @ cross_mark @ '' subdomains.txt not found'')
               (py_print ''\<newline>[8/9] Checking for subdomain takeover'' w))"
  by (simp add: run_subdomain_takeover_def Let_def)

lemma run_directory_bruteforce_gated:
  "files w (alive_file self) = None \<Longrightarrow>
   run_directory_bruteforce E self w =
     (False, py_print (''    '' @ cross_mark @ '' alive.txt not found'')
               (py_print ''\<newline>[9/9] Running ffuf directory bruteforce'' w))"
  by (simp add: run_directory_bruteforce_def Let_def)

text \<open>
  Claim C4. The five steps with a precondition file are the liveness probe and the
  takeover check (the subdomain list) and the crawl, the vulnerability scan and the
  directory brute force (the alive-host list). When that file is absent the step returns
  \<open>False\<close>, the commands run so far are the same as before the step (no tool is invoked),
  and the loop of the runner goes on with the steps that follow, after printing that
  the step failed or was skipped.
\<close>

theorem precondition_gating:
  "(files w (subdomain_file self) = None \<longrightarrow>
      fst (run_httpx E self w) = False
      \<and> execs (trace (snd (run_httpx E self w))) = execs (trace w)
      \<and> run_steps ((''run_httpx'', no_raise (run_httpx E self)) # rest) w =
          run_steps rest
            (py_print (''[!] Step '' @ [CHR 0x27] @ ''run_httpx'' @ [CHR 0x27]
                       @ '' failed or was skipped.'')
               (snd (run_httpx E self w))))
   \<and> (files w (alive_file self) = None \<longrightarrow>
      fst (run_katana_crawl E self w) = False
      \<and> execs (trace (snd (run_katana_crawl E self w))) = execs (trace w)
      \<and> run_steps ((''run_katana_crawl'', no_raise (run_katana_crawl E self)) # rest) w =
          run_steps rest
            (py_print (''[!] Step '' @ [CHR 0x27] @ ''run_katana_crawl'' @ [CHR 0x27]
                       @ '' failed or was skipped.'')
               (snd (run_katana_crawl E self w))))
   \<and> (files w (alive_file self) = None \<longrightarrow>
      fst (run_nuclei_scan E self w) = False
      \<and> execs (trace (snd (run_nuclei_scan E self w))) = execs (trace w)
      \<and> run_steps ((''run_nuclei_scan'', no_raise (run_nuclei_scan E self)) # rest) w =
          run_steps rest
            (py_print (''[!] Step '' @ [CHR 0x27] @ ''run_nuclei_scan'' @ [CHR 0x27]
                       @ '' failed or was skipped.'')
               (snd (run_nuclei_scan E self w))))
   \<and> (files w (subdomain_file self) = None \<longrightarrow>
      fst (run_subdomain_takeover E self w) = False
      \<and> execs (trace (snd (run_subdomain_takeover E self w))) = execs (trace w)
      \<and> run_steps ((''run_subdomain_takeover'', no_raise (run_subdomain_takeover E self)) # rest) w =
          run_steps rest
            (py_print (''[!] Step '' @ [CHR 0x27] @ ''run_subdomain_takeover'' @ [CHR 0x27]
                       @ '' failed or was skipped.'')
               (snd (run_subdomain_takeover E self w))))
   \<and> (files w (alive_file self) = None \<longrightarrow>
      fst (run_directory_bruteforce E self w) = False
      \<and> execs (trace (snd (run_directory_bruteforce E self w))) = execs (trace w)
      \<and> run_steps ((''run_directory_bruteforce'', no_raise (run_directory_bruteforce E self)) # rest) w =
          run_steps rest
            (py_print (''[!] Step '' @ [CHR 0x27] @ ''run_directory_bruteforce'' @ [CHR 0x27]
                       @ '' failed or was skipped.'')
               (snd (run_directory_bruteforce E self w))))"
  by (simp add: run_httpx_gated run_katana_crawl_gated run_nuclei_scan_gated
        run_subdomain_takeover_gated run_directory_bruteforce_gated
        del: run_steps.simps add: run_steps_failed)

theorem precondition_gating_witness:
  "files (example_world []) (subdomain_file example_recon) = None
   \<and> files (example_world []) (alive_file example_recon) = None
   \<and> fst (run_httpx (example_env (Exited 0) None) example_recon (example_world [])) = False
   \<and> execs (trace (snd (run_httpx (example_env (Exited 0) None) example_recon (example_world [])))) = []
   \<and> fst (run_katana_crawl (example_env (Exited 0) None) example_recon (example_world [])) = False
   \<and> execs (trace (snd (run_katana_crawl (example_env (Exited 0) None) example_recon (example_world [])))) = []
   \<and> fst (run_nuclei_scan (example_env (Exited 0) None) example_recon (example_world [])) = False
   \<and> execs (trace (snd (run_nuclei_scan (example_env (Exited 0) None) example_recon (example_world [])))) = []
   \<and> fst (run_subdomain_takeover (example_env (Exited 0) None) example_recon (example_world [])) = False
   \<and> execs (trace (snd (run_subdomain_takeover (example_env (Exited 0) None) example_recon (example_world [])))) = []
   \<and> fst (run_directory_bruteforce (example_env (Exited 0) None) example_recon (example_world [])) = False
   \<and> execs (trace (snd (run_directory_bruteforce (example_env (Exited 0) None) example_recon (example_world [])))) = []"
  using precondition_gating [of "example_world []" example_recon "example_env (Exited 0) None" "[]"]
  by (simp add: example_world_def)

section \<open>Directory brute force: empty input and the result file\<close>

lemma strip_blank: "list_all is_space (chars s) \<Longrightarrow> strip s = []"
proof -
  assume "list_all is_space (chars s)"
  then have h: "dropWhile is_space (chars s) = []"
    by (simp add: list_all_iff)
  show ?thesis
    unfolding strip_def h by simp
qed

lemma py_readline_empty: "py_readline E p [] = Inr []"
  by (simp add: py_readline_def utf8_valid_def readline_def text_lines_def)

lemma bruteforce_unreadable:
  assumes "self = init target out n"
    and "files w (alive_file self) = Some content"
    and "py_readline E (alive_file self) content = Inl e"
  shows "run_directory_bruteforce E self w =
     (False, py_print (''    '' @ cross_mark @ '' ffuf failed: '' @ exn_text E e)
        (read_file (alive_file self)
          (write_file (path_join (output_dir self) ''common_dirs.txt'')
             (concat (map (\<lambda>d. d @ ''\<newline>'') common_dirs))
             (py_print ''\<newline>[9/9] Running ffuf directory bruteforce'' w))))"
  using assms by (simp add: run_directory_bruteforce_def bruteforce_body_def Let_def)

lemma bruteforce_blank:
  assumes "self = init target out n"
    and "files w (alive_file self) = Some content"
    and "py_readline E (alive_file self) content = Inr line"
    and "strip line = []"
  shows "run_directory_bruteforce E self w =
     (False, py_print (''    '' @ cross_mark @ '' No URL in alive.txt'')
        (read_file (alive_file self)
          (write_file (path_join (output_dir self) ''common_dirs.txt'')
             (concat (map (\<lambda>d. d @ ''\<newline>'') common_dirs))
             (py_print ''\<newline>[9/9] Running ffuf directory bruteforce'' w))))"
  using assms by (simp add: run_directory_bruteforce_def bruteforce_body_def Let_def)

lemma bruteforce_after_tool:
  assumes "self = init target out n"
    and "files w (alive_file self) = Some content"
    and "py_readline E (alive_file self) content = Inr line"
    and "strip line \<noteq> []"
    and "base_url E (strip line) = Inr target_url"
    and "subprocess_run E
           (ffuf_cmd self target_url (path_join (output_dir self) ''common_dirs.txt'')) None
           (read_file (alive_file self)
             (write_file (path_join (output_dir self) ''common_dirs.txt'')
               (concat (map (\<lambda>d. d @ ''\<newline>'') common_dirs))
               (py_print ''\<newline>[9/9] Running ffuf directory bruteforce'' w))) = (Inr u, w2)"
    and "files w2 (ffuf_file self) = Some text"
  shows "run_directory_bruteforce E self w =
     (case json_load E text of
        Inl e \<Rightarrow> (False, py_print (''    '' @ cross_mark @ '' ffuf failed: '' @ exn_text E e)
                           (read_file (ffuf_file self) w2))
      | Inr results \<Rightarrow>
          (case count_results results of
             Inl e \<Rightarrow> (False, py_print (''    '' @ cross_mark @ '' ffuf failed: '' @ exn_text E e)
                           (read_file (ffuf_file self) w2))
           | Inr found \<Rightarrow> (True, py_print (''    '' @ check_mark @ '' Found '' @ str_nat found
                                           @ '' valid paths'')
                           (read_file (ffuf_file self) w2))))"
  using assms
  by (simp add: run_directory_bruteforce_def bruteforce_body_def Let_def split: sum.split)

lemma alive_line_read: "py_readline E p alive_line = Inr alive_line"
  by (simp add: alive_line_def py_readline_def utf8_valid_def is_cont_def byte_def
        readline_def text_lines_def)

lemma alive_line_strip: "strip alive_line = alive_line"
  by (simp add: alive_line_def strip_def is_space_def space_chars_def is_cont_def byte_def)

lemma alive_line_target: "base_url (example_env r wr) alive_line = Inr ''https://example.com/FUZZ''"
  by (simp add: alive_line_def base_url_def py_split_def is_space_def space_chars_def
        is_cont_def byte_def urlparse_def
        split_scheme_def ascii_alpha_def scheme_char_def ascii_lower_def ascii_upper_def
        to_lower_def example_env_def)

lemma example_subprocess_run:
  "subprocess_run (example_env (Exited 0) (Some (p, t))) cmd None w =
     (Inr (), w\<lparr>files := (files w)(p \<mapsto> t), trace := trace w @ [Exec cmd]\<rparr>)"
  by (simp add: subprocess_run_def example_env_def)

lemma example_recon_files:
  "alive_file example_recon = ''web_recon/alive.txt''"
  "ffuf_file example_recon = ''web_recon/ffuf_results.json''"
  "katana_file example_recon = ''web_recon/katana_crawl.txt''"
  "wayback_file example_recon = ''web_recon/waybackurls.txt''"
  "js_files example_recon = ''web_recon/js_files.txt''"
  "subdomain_file example_recon = ''web_recon/subdomains.txt''"
  "path_join (output_dir example_recon) ''common_dirs.txt'' = ''web_recon/common_dirs.txt''"
  "threads example_recon = 10" "domain example_recon = ''example.com''"
  by (simp_all add: example_recon_def)

text \<open>
  Claim C6. For an object built by \<^verbatim>\<open>__init__\<close>: when the alive-host file exists and
  is empty, or its first line is read and consists of white space only (any of the
  characters that \<^verbatim>\<open>str.strip()\<close> removes), the step returns \<open>False\<close> and runs no
  command; so it does when reading the first line raises. And when the step has got as
  far as the result file of the brute-forcer (the first line gives a target, the tool has
  ended with status 0 and the result file exists) and \<^verbatim>\<open>json.load\<close> raises on it, the
  step returns \<open>False\<close> after printing the failure: the exception does not leave the
  step.
\<close>

theorem bruteforce_empty_input:
  assumes "self = init target out n"
  shows
  "(files w (alive_file self) = Some content
      \<and> (content = []
          \<or> (py_readline E (alive_file self) content = Inr line \<and> list_all is_space (chars line)))
    \<longrightarrow> fst (run_directory_bruteforce E self w) = False
        \<and> execs (trace (snd (run_directory_bruteforce E self w))) = execs (trace w))
   \<and> (files w (alive_file self) = Some content
      \<and> py_readline E (alive_file self) content = Inl e0
    \<longrightarrow> fst (run_directory_bruteforce E self w) = False
        \<and> execs (trace (snd (run_directory_bruteforce E self w))) = execs (trace w))
   \<and> (files w (alive_file self) = Some content
      \<and> py_readline E (alive_file self) content = Inr line
      \<and> strip line \<noteq> []
      \<and> base_url E (strip line) = Inr target_url
      \<and> subprocess_run E
           (ffuf_cmd self target_url (path_join (output_dir self) ''common_dirs.txt'')) None
           (read_file (alive_file self)
             (write_file (path_join (output_dir self) ''common_dirs.txt'')
               (concat (map (\<lambda>d. d @ ''\<newline>'') common_dirs))
               (py_print ''\<newline>[9/9] Running ffuf directory bruteforce'' w))) = (Inr u, w2)
      \<and> files w2 (ffuf_file self) = Some text
      \<and> json_load E text = Inl e
    \<longrightarrow> run_directory_bruteforce E self w =
          (False, py_print (''    '' @ cross_mark @ '' ffuf failed: '' @ exn_text E e)
                    (read_file (ffuf_file self) w2)))"
proof (intro conjI impI)
  assume a: "files w (alive_file self) = Some content
      \<and> (content = []
          \<or> (py_readline E (alive_file self) content = Inr line \<and> list_all is_space (chars line)))"
  then obtain l where l: "py_readline E (alive_file self) content = Inr l" "strip l = []"
    using py_readline_empty [of E "alive_file self"] strip_blank [of line] strip_blank [of "[]"]
    by auto
  from a have f: "files w (alive_file self) = Some content"
    by simp
  note r = bruteforce_blank [OF assms f l]
  show "fst (run_directory_bruteforce E self w) = False"
    by (simp add: r)
  show "execs (trace (snd (run_directory_bruteforce E self w))) = execs (trace w)"
    by (simp add: r)
next
  assume a: "files w (alive_file self) = Some content
      \<and> py_readline E (alive_file self) content = Inl e0"
  then have f: "files w (alive_file self) = Some content"
    and l: "py_readline E (alive_file self) content = Inl e0"
    by simp_all
  note r = bruteforce_unreadable [OF assms f l]
  show "fst (run_directory_bruteforce E self w) = False"
    by (simp add: r)
  show "execs (trace (snd (run_directory_bruteforce E self w))) = execs (trace w)"
    by (simp add: r)
next
  assume h: "files w (alive_file self) = Some content
      \<and> py_readline E (alive_file self) content = Inr line
      \<and> strip line \<noteq> []
      \<and> base_url E (strip line) = Inr target_url
      \<and> subprocess_run E
           (ffuf_cmd self target_url (path_join (output_dir self) ''common_dirs.txt'')) None
           (read_file (alive_file self)
             (write_file (path_join (output_dir self) ''common_dirs.txt'')
               (concat (map (\<lambda>d. d @ ''\<newline>'') common_dirs))
               (py_print ''\<newline>[9/9] Running ffuf directory bruteforce'' w))) = (Inr u, w2)
      \<and> files w2 (ffuf_file self) = Some text
      \<and> json_load E text = Inl e"
  then have j: "json_load E text = Inl e"
    by simp
  from h have a1: "files w (alive_file self) = Some content"
    and a2: "py_readline E (alive_file self) content = Inr line"
    and a3: "strip line \<noteq> []"
    and a4: "base_url E (strip line) = Inr target_url"
    and a5: "subprocess_run E
           (ffuf_cmd self target_url (path_join (output_dir self) ''common_dirs.txt'')) None
           (read_file (alive_file self)
             (write_file (path_join (output_dir self) ''common_dirs.txt'')
               (concat (map (\<lambda>d. d @ ''\<newline>'') common_dirs))
               (py_print ''\<newline>[9/9] Running ffuf directory bruteforce'' w))) = (Inr u, w2)"
    and a6: "files w2 (ffuf_file self) = Some text"
    by simp_all
  show "run_directory_bruteforce E self w =
          (False, py_print (''    '' @ cross_mark @ '' ffuf failed: '' @ exn_text E e)
                    (read_file (ffuf_file self) w2))"
    using bruteforce_after_tool [OF assms a1 a2 a3 a4 a5 a6] j by simp
qed

theorem bruteforce_empty_input_witness:
  "fst (run_directory_bruteforce (example_env (Exited 0) None) example_recon
          (example_world [(''web_recon/alive.txt'',
             [CHR 0xC2, CHR 0xA0, CHR 0x0A] @ ''https://example.com'')])) = False
   \<and> execs (trace (snd (run_directory_bruteforce (example_env (Exited 0) None) example_recon
          (example_world [(''web_recon/alive.txt'',
             [CHR 0xC2, CHR 0xA0, CHR 0x0A] @ ''https://example.com'')])))) = []
   \<and> fst (run_directory_bruteforce (example_env (Exited 0) None) example_recon
          (example_world [(''web_recon/alive.txt'', [CHR 0xFF])])) = False
   \<and> execs (trace (snd (run_directory_bruteforce (example_env (Exited 0) None) example_recon
          (example_world [(''web_recon/alive.txt'', [CHR 0xFF])])))) = []
   \<and> json_load (example_env (Exited 0) (Some (''web_recon/ffuf_results.json'', ''not json'')))
        ''not json'' = Inl (ValueError ''Expecting value: line 1 column 1 (char 0)'')
   \<and> fst (run_directory_bruteforce
          (example_env (Exited 0) (Some (''web_recon/ffuf_results.json'', ''not json'')))
          example_recon
          (example_world [(''web_recon/alive.txt'', alive_line)])) = False"
proof -
  let ?E1 = "example_env (Exited 0) None"
  let ?E2 = "example_env (Exited 0) (Some (''web_recon/ffuf_results.json'', ''not json''))"
  let ?c1 = "[CHR 0xC2, CHR 0xA0, CHR 0x0A] @ ''https://example.com''"
  let ?w1 = "example_world [(''web_recon/alive.txt'', ?c1)]"
  let ?w0 = "example_world [(''web_recon/alive.txt'', [CHR 0xFF])]"
  let ?w2 = "example_world [(''web_recon/alive.txt'', alive_line)]"
  let ?wt = "read_file (alive_file example_recon)
             (write_file (path_join (output_dir example_recon) ''common_dirs.txt'')
               (concat (map (\<lambda>d. d @ ''\<newline>'') common_dirs))
               (py_print ''\<newline>[9/9] Running ffuf directory bruteforce'' ?w2))"
  let ?cmd = "ffuf_cmd example_recon ''https://example.com/FUZZ''
                (path_join (output_dir example_recon) ''common_dirs.txt'')"
  let ?w3 = "?wt\<lparr>files := (files ?wt)(''web_recon/ffuf_results.json'' \<mapsto> ''not json''),
                 trace := trace ?wt @ [Exec ?cmd]\<rparr>"
  have s: "example_recon = init ''example.com'' ''web_recon'' 10"
    by (simp add: example_recon_def)
  have f1: "files ?w1 (alive_file example_recon) = Some ?c1"
    by (simp add: example_world_def example_recon_files)
  have r1: "py_readline ?E1 (alive_file example_recon) ?c1 = Inr [CHR 0xC2, CHR 0xA0, CHR 0x0A]"
    by (simp add: py_readline_def utf8_valid_def is_cont_def byte_def readline_def
          text_lines_def)
  have b1: "list_all is_space (chars [CHR 0xC2, CHR 0xA0, CHR 0x0A])"
    by (simp add: is_space_def space_chars_def is_cont_def byte_def)
  have f0: "files ?w0 (alive_file example_recon) = Some [CHR 0xFF]"
    by (simp add: example_world_def example_recon_files)
  have r0: "py_readline ?E1 (alive_file example_recon) [CHR 0xFF]
              = Inl (UnicodeDecodeError (alive_file example_recon))"
    by (simp add: py_readline_def utf8_valid_def is_cont_def byte_def)
  have h2: "files ?w2 (alive_file example_recon) = Some alive_line"
    by (simp add: example_world_def example_recon_files)
  have h3: "strip alive_line \<noteq> []"
    by (simp add: alive_line_strip) (simp add: alive_line_def)
  have h4: "base_url ?E2 (strip alive_line) = Inr ''https://example.com/FUZZ''"
    by (simp add: alive_line_strip alive_line_target)
  have h5: "subprocess_run ?E2 ?cmd None ?wt = (Inr (), ?w3)"
    by (rule example_subprocess_run)
  have h6: "files ?w3 (ffuf_file example_recon) = Some ''not json''"
    by (simp add: example_recon_files)
  have h7: "json_load ?E2 ''not json'' = Inl (ValueError ''Expecting value: line 1 column 1 (char 0)'')"
    by (simp add: example_env_def toy_json_load_def)
  from bruteforce_empty_input [OF s, of ?w1 ?c1 ?E1 "[CHR 0xC2, CHR 0xA0, CHR 0x0A]"] f1 r1 b1
  have p1: "fst (run_directory_bruteforce ?E1 example_recon ?w1) = False
     \<and> execs (trace (snd (run_directory_bruteforce ?E1 example_recon ?w1))) = execs (trace ?w1)"
    by blast
  from bruteforce_empty_input [OF s, of ?w0 "[CHR 0xFF]" ?E1 _
      "UnicodeDecodeError (alive_file example_recon)"] f0 r0
  have p0: "fst (run_directory_bruteforce ?E1 example_recon ?w0) = False
     \<and> execs (trace (snd (run_directory_bruteforce ?E1 example_recon ?w0))) = execs (trace ?w0)"
    by blast
  from bruteforce_empty_input [OF s, of ?w2 alive_line ?E2 alive_line _
      "''https://example.com/FUZZ''" "()" ?w3 "''not json''"
      "ValueError ''Expecting value: line 1 column 1 (char 0)''"]
    h2 alive_line_read [of ?E2 "alive_file example_recon"] h3 h4 h5 h6 h7
  have p2: "run_directory_bruteforce ?E2 example_recon ?w2 =
      (False, py_print (''    '' @ cross_mark @ '' ffuf failed: ''
                 @ exn_text ?E2 (ValueError ''Expecting value: line 1 column 1 (char 0)''))
                (read_file (ffuf_file example_recon) ?w3))"
    by blast
  have e: "execs (trace ?w1) = []" "execs (trace ?w0) = []"
    by (simp_all add: example_world_def)
  from p1 p0 p2 h7 e show ?thesis
    by simp
qed

section \<open>Directory brute force: a result without the key\<close>

text \<open>
  Claim C10, as amended. For an object built by \<^verbatim>\<open>__init__\<close>: when the step has got as
  far as the result file (the first line is read and gives a target, the tool has ended
  with status 0 and the result file exists) and the file parses as a JSON object that has
  no key \<^verbatim>\<open>results\<close>, the step prints that it found 0 valid paths and returns \<open>True\<close>.
\<close>

theorem missing_results_key:
  assumes "self = init target out n"
    and "files w (alive_file self) = Some content"
    and "py_readline E (alive_file self) content = Inr line"
    and "strip line \<noteq> []"
    and "base_url E (strip line) = Inr target_url"
    and "subprocess_run E
           (ffuf_cmd self target_url (path_join (output_dir self) ''common_dirs.txt'')) None
           (read_file (alive_file self)
             (write_file (path_join (output_dir self) ''common_dirs.txt'')
               (concat (map (\<lambda>d. d @ ''\<newline>'') common_dirs))
               (py_print ''\<newline>[9/9] Running ffuf directory bruteforce'' w))) = (Inr u, w2)"
    and "files w2 (ffuf_file self) = Some text"
    and "json_load E text = Inr (JObject items)"
    and "map_of items ''results'' = None"
  shows "run_directory_bruteforce E self w =
     (True, py_print (''    '' @ check_mark @ '' Found 0 valid paths'')
              (read_file (ffuf_file self) w2))"
  using assms(8,9) bruteforce_after_tool [OF assms(1-7)]
  by (simp add: count_results_def digit_def)

theorem missing_results_key_witness:
  "json_load (example_env (Exited 0) (Some (''web_recon/ffuf_results.json'', ''{}''))) ''{}''
     = Inr (JObject [])
   \<and> map_of ([] :: (string \<times> json) list) ''results'' = None
   \<and> fst (run_directory_bruteforce
          (example_env (Exited 0) (Some (''web_recon/ffuf_results.json'', ''{}'')))
          example_recon
          (example_world [(''web_recon/alive.txt'', alive_line)])) = True
   \<and> last (prints (trace (snd (run_directory_bruteforce
          (example_env (Exited 0) (Some (''web_recon/ffuf_results.json'', ''{}'')))
          example_recon
          (example_world [(''web_recon/alive.txt'', alive_line)])))))
       = ''    '' @ check_mark @ '' Found 0 valid paths''"
proof -
  let ?E = "example_env (Exited 0) (Some (''web_recon/ffuf_results.json'', ''{}''))"
  let ?w = "example_world [(''web_recon/alive.txt'', alive_line)]"
  let ?wt = "read_file (alive_file example_recon)
             (write_file (path_join (output_dir example_recon) ''common_dirs.txt'')
               (concat (map (\<lambda>d. d @ ''\<newline>'') common_dirs))
               (py_print ''\<newline>[9/9] Running ffuf directory bruteforce'' ?w))"
  let ?cmd = "ffuf_cmd example_recon ''https://example.com/FUZZ''
                (path_join (output_dir example_recon) ''common_dirs.txt'')"
  let ?w3 = "?wt\<lparr>files := (files ?wt)(''web_recon/ffuf_results.json'' \<mapsto> ''{}''),
                 trace := trace ?wt @ [Exec ?cmd]\<rparr>"
  have s: "example_recon = init ''example.com'' ''web_recon'' 10"
    by (simp add: example_recon_def)
  have h1: "files ?w (alive_file example_recon) = Some alive_line"
    by (simp add: example_world_def example_recon_files)
  have h2: "strip alive_line \<noteq> []"
    by (simp add: alive_line_strip) (simp add: alive_line_def)
  have h3: "base_url ?E (strip alive_line) = Inr ''https://example.com/FUZZ''"
    by (simp add: alive_line_strip alive_line_target)
  have h4: "subprocess_run ?E ?cmd None ?wt = (Inr (), ?w3)"
    by (rule example_subprocess_run)
  have h5: "files ?w3 (ffuf_file example_recon) = Some ''{}''"
    by (simp add: example_recon_files)
  have h6: "json_load ?E ''{}'' = Inr (JObject [])"
    by (simp add: example_env_def toy_json_load_def)
  have h7: "map_of ([] :: (string \<times> json) list) ''results'' = None"
    by simp
  from missing_results_key [OF s h1 alive_line_read h2 h3 h4 h5 h6 h7] h6 show ?thesis
    by simp
qed

text \<open>
  The claim as it was stated asks only that the file parses as JSON and has no key
  \<^verbatim>\<open>results\<close>. The text \<^verbatim>\<open>[]\<close> parses, to an empty list, and a list has no method
  \<^verbatim>\<open>get\<close>: the \<^verbatim>\<open>AttributeError\<close> is caught by the handler of the step, which
  returns \<open>False\<close>.
\<close>

theorem missing_results_key_counterexample:
  "json_load (example_env (Exited 0) (Some (''web_recon/ffuf_results.json'', ''[]''))) ''[]''
     = Inr (JArray [])
   \<and> files (snd (run_directory_bruteforce
          (example_env (Exited 0) (Some (''web_recon/ffuf_results.json'', ''[]'')))
          example_recon
          (example_world [(''web_recon/alive.txt'', alive_line)])))
        ''web_recon/ffuf_results.json'' = Some ''[]''
   \<and> fst (run_directory_bruteforce
          (example_env (Exited 0) (Some (''web_recon/ffuf_results.json'', ''[]'')))
          example_recon
          (example_world [(''web_recon/alive.txt'', alive_line)])) = False"
proof -
  let ?E = "example_env (Exited 0) (Some (''web_recon/ffuf_results.json'', ''[]''))"
  let ?w = "example_world [(''web_recon/alive.txt'', alive_line)]"
  let ?wt = "read_file (alive_file example_recon)
             (write_file (path_join (output_dir example_recon) ''common_dirs.txt'')
               (concat (map (\<lambda>d. d @ ''\<newline>'') common_dirs))
               (py_print ''\<newline>[9/9] Running ffuf directory bruteforce'' ?w))"
  let ?cmd = "ffuf_cmd example_recon ''https://example.com/FUZZ''
                (path_join (output_dir example_recon) ''common_dirs.txt'')"
  let ?w3 = "?wt\<lparr>files := (files ?wt)(''web_recon/ffuf_results.json'' \<mapsto> ''[]''),
                 trace := trace ?wt @ [Exec ?cmd]\<rparr>"
  have s: "example_recon = init ''example.com'' ''web_recon'' 10"
    by (simp add: example_recon_def)
  have h1: "files ?w (alive_file example_recon) = Some alive_line"
    by (simp add: example_world_def example_recon_files)
  have h2: "strip alive_line \<noteq> []"
    by (simp add: alive_line_strip) (simp add: alive_line_def)
  have h3: "base_url ?E (strip alive_line) = Inr ''https://example.com/FUZZ''"
    by (simp add: alive_line_strip alive_line_target)
  have h4: "subprocess_run ?E ?cmd None ?wt = (Inr (), ?w3)"
    by (rule example_subprocess_run)
  have h5: "files ?w3 (ffuf_file example_recon) = Some ''[]''"
    by (simp add: example_recon_files)
  have h6: "json_load ?E ''[]'' = Inr (JArray [])"
    by (simp add: example_env_def toy_json_load_def)
  from bruteforce_after_tool [OF s h1 alive_line_read h2 h3 h4 h5] h6 show ?thesis
    by (simp add: count_results_def example_recon_files)
qed

section \<open>The dependency checker\<close>

lemma check_tool_installed_cases:
  "fst (check_tool_installed E tool w) =
     (case fst (exec E (trace w) [tool, ''-h''] (files w)) of
        Exited rc \<Rightarrow> Inr (rc = 0)
      | LaunchFailed (CalledProcessError c rc) \<Rightarrow> Inr False
      | LaunchFailed (FileNotFoundError m) \<Rightarrow> Inr False
      | LaunchFailed e \<Rightarrow> Inl e)"
  by (simp add: check_tool_installed_def subprocess_run_def Let_def
           split: prod.split proc_result.split exn.split)

lemma check_tool_installed_total:
  "exits_or_not_found (fst (exec E (trace w) [tool, ''-h''] (files w))) \<Longrightarrow>
   \<exists>b. fst (check_tool_installed E tool w) = Inr b"
  by (cases "fst (exec E (trace w) [tool, ''-h''] (files w))" rule: exits_or_not_found.cases)
     (auto simp: check_tool_installed_cases)

lemma check_tools_total:
  "(\<And>h cmd fs. exits_or_not_found (fst (exec E h cmd fs))) \<Longrightarrow>
   \<exists>m. fst (check_tools E ts missing w) = Inr m"
proof (induction ts arbitrary: missing w)
  case Nil
  then show ?case by simp
next
  case (Cons t ts)
  obtain tool install where t: "t = (tool, install)" by (cases t)
  obtain r w1 where c: "check_tool_installed E tool w = (r, w1)" by (cases "check_tool_installed E tool w")
  have "exits_or_not_found (fst (exec E (trace w) [tool, ''-h''] (files w)))"
    by (rule Cons.prems)
  from check_tool_installed_total [OF this] c
  obtain b where r: "r = Inr b" by auto
  show ?case
    using Cons.IH [OF Cons.prems] by (simp add: t c r)
qed

text \<open>What the check of one tool returns for the outcomes named in its \<^verbatim>\<open>except\<close>
  clause, and that the checker returns when every probe ends in one of them.\<close>

lemma tool_check_caught:
  "(fst (exec E (trace w) [tool_name, ''-h''] (files w)) = Exited 0 \<longrightarrow>
      fst (check_tool_installed E tool_name w) = Inr True)
   \<and> (fst (exec E (trace w) [tool_name, ''-h''] (files w)) = Exited rc \<and> rc \<noteq> 0 \<longrightarrow>
      fst (check_tool_installed E tool_name w) = Inr False)
   \<and> (fst (exec E (trace w) [tool_name, ''-h''] (files w)) = LaunchFailed (FileNotFoundError m) \<longrightarrow>
      fst (check_tool_installed E tool_name w) = Inr False)
   \<and> ((\<forall>h cmd fs. exits_or_not_found (fst (exec E h cmd fs))) \<longrightarrow>
      (\<exists>b. fst (check_tool_installed E tool_name w) = Inr b)
      \<and> (\<exists>b. fst (check_dependencies E w) = Inr b))"
proof (intro conjI impI)
  assume a: "\<forall>h cmd fs. exits_or_not_found (fst (exec E h cmd fs))"
  then show "\<exists>b. fst (check_tool_installed E tool_name w) = Inr b"
    by (simp add: check_tool_installed_total)
  from a have "\<exists>m. fst (check_tools E tools [] (py_print ''[+] Checking dependencies...'' w)) = Inr m"
    by (intro check_tools_total) simp
  then show "\<exists>b. fst (check_dependencies E w) = Inr b"
    by (auto simp: check_dependencies_def Let_def split: prod.split sum.split)
qed (simp_all add: check_tool_installed_cases)


text \<open>
  Claim C8. The claim has the check of a tool return \<open>False\<close> for every failure to invoke
  it, and the checker never raise. The \<^verbatim>\<open>except\<close> clause of \<^verbatim>\<open>check_tool_installed\<close>
  names \<^verbatim>\<open>CalledProcessError\<close> and \<^verbatim>\<open>FileNotFoundError\<close> only, where every step
  that runs a tool catches \<^verbatim>\<open>Exception\<close>. For a program that is found but may not be
  executed \<^verbatim>\<open>subprocess.run\<close> raises \<^verbatim>\<open>PermissionError\<close>: evaluated at this outcome,
  the check of the tool raises, and so do \<^verbatim>\<open>check_dependencies\<close> and \<^verbatim>\<open>start\<close>, with
  no command run after the first probe.
\<close>

theorem tool_check_permission_error:
  "fst (exec (example_env (LaunchFailed (PermissionError ''Permission denied'')) None) []
          [''subfinder'', ''-h''] Map.empty) = LaunchFailed (PermissionError ''Permission denied'')
   \<and> fst (check_tool_installed (example_env (LaunchFailed (PermissionError ''Permission denied'')) None)
          ''subfinder'' (example_world [])) = Inl (PermissionError ''Permission denied'')
   \<and> fst (check_dependencies (example_env (LaunchFailed (PermissionError ''Permission denied'')) None)
          (example_world [])) = Inl (PermissionError ''Permission denied'')
   \<and> fst (start (example_env (LaunchFailed (PermissionError ''Permission denied'')) None)
          example_recon (example_world [])) = Inl (PermissionError ''Permission denied'')
   \<and> execs (trace (snd (start (example_env (LaunchFailed (PermissionError ''Permission denied'')) None)
          example_recon (example_world [])))) = [[''subfinder'', ''-h'']]"
  by (simp add: start_def print_banner_def check_dependencies_def tools_def
        check_tool_installed_def subprocess_run_def example_env_def example_world_def Let_def)

section \<open>The run: steps attempted\<close>


lemma started_print_other:
  "s \<notin> set (step_starts self) \<Longrightarrow> started self (py_print s w) = started self w"
  by (simp add: started_def)

lemma started_print_indent [simp]: "started self (py_print (CHR '' '' # x) w) = started self w"
  by (rule started_print_other) (simp add: step_starts_def)

lemma started_print_bracket [simp]: "started self (py_print (CHR ''['' # x) w) = started self w"
  by (rule started_print_other) (simp add: step_starts_def)

lemma started_write_file [simp]: "started self (write_file p s w) = started self w"
  by (simp add: started_def)

lemma started_read_file [simp]: "started self (read_file p w) = started self w"
  by (simp add: started_def)

lemma started_subprocess_run [simp]:
  "started self (snd (subprocess_run E cmd out w)) = started self w"
  by (simp add: started_def subprocess_run_trace)

lemma step_starts_mem [simp]:
  "''\<newline>[1/9] Running subfinder on '' @ domain self \<in> set (step_starts self)"
  "''\<newline>[2/9] Running httpx'' \<in> set (step_starts self)"
  "''\<newline>[3/9] Running waybackurls'' \<in> set (step_starts self)"
  "''\<newline>[4/9] Running gau'' \<in> set (step_starts self)"
  "''\<newline>[5/9] Running katana'' \<in> set (step_starts self)"
  "''\<newline>[6/9] Extracting JS files'' \<in> set (step_starts self)"
  "''\<newline>[7/9] Running nuclei scan'' \<in> set (step_starts self)"
  "''\<newline>[8/9] Checking for subdomain takeover'' \<in> set (step_starts self)"
  "''\<newline>[9/9] Running ffuf directory bruteforce'' \<in> set (step_starts self)"
  by (simp_all add: step_starts_def)



lemma bruteforce_body_started [simp]:
  "started self (snd (bruteforce_body E self' wl w)) = started self w"
  by (simp add: bruteforce_body_def Let_def case_prod_beta check_mark_def cross_mark_def
           split: option.split sum.split)


















lemma run_pipeline_fst: "fst (run_pipeline E self w) = fst (run_steps (steps E self) w)"
  by (cases "run_steps (steps E self) w"; cases "fst (run_steps (steps E self) w)")
     (auto simp: run_pipeline_def Let_def)


text \<open>
  Claim C2 does not hold of the code. The loop of lines 273 to 276 goes on with the next
  step after every step that returns, whatever it returns (\<open>run_steps_return\<close>), and the
  eight steps that run a tool return in every case. Step 6, \<^verbatim>\<open>extract_js_files\<close>, reads
  \<^verbatim>\<open>katana_crawl.txt\<close> and \<^verbatim>\<open>waybackurls.txt\<close> outside any \<^verbatim>\<open>try\<close>, unlike the other
  steps, whose handler is \<^verbatim>\<open>except Exception\<close>: when such a file holds bytes that are not
  UTF-8, the \<^verbatim>\<open>UnicodeDecodeError\<close> of the decoder leaves the step, the loop, which has
  no handler either, and \<^verbatim>\<open>start\<close>. In the run below every tool is present and every
  command ends with status 0; the workspace holds a \<^verbatim>\<open>katana_crawl.txt\<close> with the
  single byte \<^verbatim>\<open>0xFF\<close>. The dependency check returns \<open>True\<close>; \<^verbatim>\<open>start\<close> ends with the
  exception; the steps attempted are the first six; the last thing the script did was to
  open the file; and the completion banner is not among the lines printed.
\<close>

theorem undecodable_file_ends_run:
  "fst (check_dependencies (example_env (Exited 0) None)
          (print_banner (example_world [(''web_recon/katana_crawl.txt'', [CHR 0xFF])]))) = Inr True
   \<and> fst (start (example_env (Exited 0) None) example_recon
           (example_world [(''web_recon/katana_crawl.txt'', [CHR 0xFF])])) = Inl (UnicodeDecodeError ''web_recon/katana_crawl.txt'')
   \<and> started example_recon (snd (start (example_env (Exited 0) None) example_recon
           (example_world [(''web_recon/katana_crawl.txt'', [CHR 0xFF])]))) =
       [''\<newline>[1/9] Running subfinder on example.com'',
        ''\<newline>[2/9] Running httpx'',
        ''\<newline>[3/9] Running waybackurls'',
        ''\<newline>[4/9] Running gau'',
        ''\<newline>[5/9] Running katana'',
        ''\<newline>[6/9] Extracting JS files'']
   \<and> last (trace (snd (start (example_env (Exited 0) None) example_recon
           (example_world [(''web_recon/katana_crawl.txt'', [CHR 0xFF])])))) = Read ''web_recon/katana_crawl.txt''
   \<and> ''\<newline>['' @ check_mark @ ''] Web Security Recon Complete!''
         \<notin> set (prints (trace (snd (start (example_env (Exited 0) None) example_recon
           (example_world [(''web_recon/katana_crawl.txt'', [CHR 0xFF])])))))"
proof -
  have u: "\<not> utf8_valid [CHR 0xFF]"
    by (simp add: utf8_valid_def is_cont_def byte_def)
  have b: "\<And>s. hd (tl s) \<noteq> CHR 0xE2 \<Longrightarrow> (banner = s) = False"
    "\<And>s. hd (tl s) \<noteq> CHR 0xE2 \<Longrightarrow> (s = banner) = False"
    by (auto simp: banner_def)
  show ?thesis
    by (simp add: b start_def print_banner_def check_dependencies_def tools_def
          check_tool_installed_def subprocess_run_def example_env_def Let_def run_pipeline_def
          steps_def no_raise_def run_subfinder_def run_httpx_def run_waybackurls_def
          run_gau_def run_katana_crawl_def extract_js_files_def scan_files_def scan_file_def
          read_lines_def u example_recon_def example_world_def started_def step_starts_def
          check_mark_def cross_mark_def)
qed

lemma check_tool_installed_started [simp]:
  "started self (snd (check_tool_installed E t w)) = started self w"
  by (simp add: check_tool_installed_def case_prod_beta split: sum.split exn.split)









lemma print_banner_started [simp]: "started self (print_banner w) = started self w"
  by (simp add: print_banner_def banner_def started_print_other step_starts_def)

lemma print_banner_execs [simp]: "execs (trace (print_banner w)) = execs (trace w)"
  by (simp add: print_banner_def)








section \<open>Extraction of the JavaScript URLs\<close>

lemma collect_js_set:
  "set (collect_js ls acc) =
     set acc \<union> strip ` {l \<in> set ls. contains ''.js'' l \<or> contains ''/js/'' l}"
  by (induction ls arbitrary: acc) auto

lemma collect_js_distinct: "distinct acc \<Longrightarrow> distinct (collect_js ls acc)"
  by (induction ls arbitrary: acc) auto

lemma scan_file_decodable:
  "decodable w p \<Longrightarrow>
   fst (scan_file p (js, w)) =
     Inr (case files w p of None \<Rightarrow> js | Some content \<Rightarrow> collect_js (text_lines content) js)"
  by (cases "files w p") (simp_all add: scan_file_def decodable_def read_lines_def)

lemma scan_file_undecodable:
  "\<not> decodable w p \<Longrightarrow> fst (scan_file p (js, w)) = Inl (UnicodeDecodeError p)"
  by (cases "files w p") (simp_all add: scan_file_def decodable_def read_lines_def)

lemma scan_file_files [simp]: "files (snd (scan_file p st)) = files (snd st)"
  by (cases st) (simp add: scan_file_def split: option.split sum.split)

lemma scan_file_writes [simp]: "writes (trace (snd (scan_file p st))) = writes (trace (snd st))"
  by (cases st) (simp add: scan_file_def split: option.split sum.split)

lemma scan_files_files [simp]: "files (snd (scan_files self w)) = files w"
proof -
  obtain r w1 where k: "scan_file (katana_file self) ([], w) = (r, w1)"
    by (cases "scan_file (katana_file self) ([], w)")
  from scan_file_files [of "katana_file self" "([], w)"] k have f: "files w1 = files w"
    by simp
  show ?thesis
  proof (cases r)
    case (Inl e)
    with k f show ?thesis by (simp add: scan_files_def)
  next
    case (Inr js)
    with k f scan_file_files [of "wayback_file self" "(js, w1)"] show ?thesis
      by (simp add: scan_files_def)
  qed
qed

lemma scan_files_writes [simp]:
  "writes (trace (snd (scan_files self w))) = writes (trace w)"
proof -
  obtain r w1 where k: "scan_file (katana_file self) ([], w) = (r, w1)"
    by (cases "scan_file (katana_file self) ([], w)")
  from scan_file_writes [of "katana_file self" "([], w)"] k
  have f: "writes (trace w1) = writes (trace w)"
    by simp
  show ?thesis
  proof (cases r)
    case (Inl e)
    with k f show ?thesis by (simp add: scan_files_def)
  next
    case (Inr js)
    with k f scan_file_writes [of "wayback_file self" "(js, w1)"] show ?thesis
      by (simp add: scan_files_def)
  qed
qed

lemma scan_files_decodable:
  assumes "decodable w (katana_file self)" and "decodable w (wayback_file self)"
  shows "\<exists>js. fst (scan_files self w) = Inr js \<and> set js = js_url_set self w \<and> distinct js"
proof -
  let ?js1 = "case files w (katana_file self) of None \<Rightarrow> []
              | Some content \<Rightarrow> collect_js (text_lines content) []"
  let ?js2 = "case files w (wayback_file self) of None \<Rightarrow> ?js1
              | Some content \<Rightarrow> collect_js (text_lines content) ?js1"
  obtain r w1 where k: "scan_file (katana_file self) ([], w) = (r, w1)"
    by (cases "scan_file (katana_file self) ([], w)")
  from scan_file_decodable [OF assms(1), of "[]"] k have r: "r = Inr ?js1"
    by simp
  from scan_file_files [of "katana_file self" "([], w)"] k have f: "files w1 = files w"
    by simp
  with assms(2) have "decodable w1 (wayback_file self)"
    by (simp add: decodable_def)
  from scan_file_decodable [OF this, of ?js1] f
  have "fst (scan_file (wayback_file self) (?js1, w1)) = Inr ?js2"
    by simp
  with k r have "fst (scan_files self w) = Inr ?js2"
    by (simp add: scan_files_def)
  moreover have "set ?js2 = js_url_set self w"
    by (auto simp: js_url_set_def source_lines_def collect_js_set split: option.split)
  moreover have "distinct ?js2"
    by (simp add: collect_js_distinct split: option.split)
  ultimately show ?thesis
    by blast
qed

lemma scan_files_undecodable:
  assumes "\<not> (decodable w (katana_file self) \<and> decodable w (wayback_file self))"
  shows "fst (scan_files self w) =
           Inl (UnicodeDecodeError (if \<not> decodable w (katana_file self) then katana_file self
                                    else wayback_file self))"
proof (cases "decodable w (katana_file self)")
  case False
  obtain r w1 where k: "scan_file (katana_file self) ([], w) = (r, w1)"
    by (cases "scan_file (katana_file self) ([], w)")
  with scan_file_undecodable [OF False, of "[]"] have "r = Inl (UnicodeDecodeError (katana_file self))"
    by simp
  with k False show ?thesis
    by (simp add: scan_files_def)
next
  case True
  with assms have n: "\<not> decodable w (wayback_file self)"
    by simp
  obtain r w1 where k: "scan_file (katana_file self) ([], w) = (r, w1)"
    by (cases "scan_file (katana_file self) ([], w)")
  from scan_file_decodable [OF True, of "[]"] k obtain js where r: "r = Inr js"
    by simp
  from scan_file_files [of "katana_file self" "([], w)"] k have f: "files w1 = files w"
    by simp
  with n have "\<not> decodable w1 (wayback_file self)"
    by (simp add: decodable_def)
  from scan_file_undecodable [OF this, of js] k r True show ?thesis
    by (simp add: scan_files_def)
qed

lemma sort_distinct_set:
  "distinct xs \<Longrightarrow> sort xs = sorted_list_of_set (set xs)"
  by (simp add: sorted_list_of_set_sort_remdups distinct_remdups_id)

lemma decodable_print [simp]: "decodable (py_print s w) p = decodable w p"
  by (simp add: decodable_def)

lemma js_url_set_print [simp]: "js_url_set self (py_print s w) = js_url_set self w"
  by (simp add: js_url_set_def source_lines_def)

text \<open>
  Claim C3. When the crawl output and the wayback file can be read as text (each is
  absent or decodes), the set \<^verbatim>\<open>js_urls\<close> that the extraction step has collected when
  both files are read is the set of the stripped lines of the two files that contain
  \<^verbatim>\<open>.js\<close> or \<^verbatim>\<open>/js/\<close>, each once. When that set is not empty the step returns
  \<open>True\<close> and the one file it writes is the list of JavaScript URLs, whose text is the
  elements of the set in ascending lexicographic order, each followed by a line feed.
  When the set is empty the step returns \<open>False\<close>, writes no file and leaves the files
  as they were. When one of the two files does not decode there are no lines to speak of:
  the step raises the \<^verbatim>\<open>UnicodeDecodeError\<close> of the first such file, and writes no file.
\<close>

theorem js_extraction:
  "(decodable w (katana_file self) \<and> decodable w (wayback_file self) \<longrightarrow>
      (\<exists>js. fst (scan_files self (py_print ''\<newline>[6/9] Extracting JS files'' w)) = Inr js
            \<and> set js = js_url_set self w \<and> distinct js)
      \<and> (js_url_set self w \<noteq> {} \<longrightarrow>
           fst (extract_js_files self w) = Inr True
           \<and> writes (trace (snd (extract_js_files self w))) =
               writes (trace w) @
                 [(js_files self,
                   concat (map (\<lambda>url. url @ ''\<newline>'') (sorted_list_of_set (js_url_set self w))))]
           \<and> files (snd (extract_js_files self w)) =
               (files w)(js_files self \<mapsto>
                  concat (map (\<lambda>url. url @ ''\<newline>'') (sorted_list_of_set (js_url_set self w)))))
      \<and> (js_url_set self w = {} \<longrightarrow>
           fst (extract_js_files self w) = Inr False
           \<and> writes (trace (snd (extract_js_files self w))) = writes (trace w)
           \<and> files (snd (extract_js_files self w)) = files w))
   \<and> (\<not> (decodable w (katana_file self) \<and> decodable w (wayback_file self)) \<longrightarrow>
        fst (extract_js_files self w) =
          Inl (UnicodeDecodeError (if \<not> decodable w (katana_file self) then katana_file self
                                   else wayback_file self))
        \<and> writes (trace (snd (extract_js_files self w))) = writes (trace w)
        \<and> files (snd (extract_js_files self w)) = files w)"
proof (intro conjI impI)
  let ?w1 = "py_print ''\<newline>[6/9] Extracting JS files'' w"
  obtain r w2 where k: "scan_files self ?w1 = (r, w2)"
    by (cases "scan_files self ?w1")
  from scan_files_files [of self ?w1] k have f: "files w2 = files w"
    by simp
  from scan_files_writes [of self ?w1] k have t: "writes (trace w2) = writes (trace w)"
    by simp
  {
    assume d: "decodable w (katana_file self) \<and> decodable w (wayback_file self)"
    from scan_files_decodable [of ?w1 self] d
    obtain js where j: "fst (scan_files self ?w1) = Inr js"
      and s: "set js = js_url_set self w" and dj: "distinct js"
      by auto
    from j s dj show "\<exists>js. fst (scan_files self ?w1) = Inr js
            \<and> set js = js_url_set self w \<and> distinct js"
      by blast
    from j k have r: "r = Inr js" by simp
    have so: "sort js = sorted_list_of_set (js_url_set self w)"
      using sort_distinct_set [OF dj] s by simp
    have e: "(js = []) = (js_url_set self w = {})"
      using s by auto
    {
      assume n: "js_url_set self w \<noteq> {}"
      with e have ne: "js \<noteq> []" by simp
      from ne show "fst (extract_js_files self w) = Inr True"
        by (simp add: extract_js_files_def Let_def k r)
      from ne show "writes (trace (snd (extract_js_files self w))) =
               writes (trace w) @
                 [(js_files self,
                   concat (map (\<lambda>url. url @ ''\<newline>'') (sorted_list_of_set (js_url_set self w))))]"
        by (simp add: extract_js_files_def Let_def k r t so)
      from ne show "files (snd (extract_js_files self w)) =
               (files w)(js_files self \<mapsto>
                  concat (map (\<lambda>url. url @ ''\<newline>'') (sorted_list_of_set (js_url_set self w))))"
        by (simp add: extract_js_files_def Let_def k r f so)
    }
    {
      assume "js_url_set self w = {}"
      with e have em: "js = []" by simp
      from em show "fst (extract_js_files self w) = Inr False"
        by (simp add: extract_js_files_def Let_def k r)
      from em show "writes (trace (snd (extract_js_files self w))) = writes (trace w)"
        by (simp add: extract_js_files_def Let_def k r t)
      from em show "files (snd (extract_js_files self w)) = files w"
        by (simp add: extract_js_files_def Let_def k r f)
    }
  }
  {
    assume n: "\<not> (decodable w (katana_file self) \<and> decodable w (wayback_file self))"
    from scan_files_undecodable [of ?w1 self] n k
    have r: "r = Inl (UnicodeDecodeError (if \<not> decodable w (katana_file self) then katana_file self
                                   else wayback_file self))"
      by simp
    show "fst (extract_js_files self w) =
          Inl (UnicodeDecodeError (if \<not> decodable w (katana_file self) then katana_file self
                                   else wayback_file self))"
      by (simp add: extract_js_files_def Let_def k r)
    show "writes (trace (snd (extract_js_files self w))) = writes (trace w)"
      by (simp add: extract_js_files_def Let_def k r t)
    show "files (snd (extract_js_files self w)) = files w"
      by (simp add: extract_js_files_def Let_def k r f)
  }
qed

lemma js_url_set_code:
  "js_url_set self w =
     set (map strip (filter (\<lambda>l. contains ''.js'' l \<or> contains ''/js/'' l) (source_lines self w)))"
  by (auto simp: js_url_set_def)

theorem js_extraction_witness:
  "js_url_set example_recon
      (example_world [(''web_recon/katana_crawl.txt'',
                         ''b.js\<newline>'' @ [CHR 0xC2, CHR 0xA0] @ ''a.js \<newline>x\<newline>b.js''),
                      (''web_recon/waybackurls.txt'', ''/js/q\<newline>a.js'')])
     = {''b.js'', ''a.js'', ''/js/q''}
   \<and> fst (extract_js_files example_recon
      (example_world [(''web_recon/katana_crawl.txt'',
                         ''b.js\<newline>'' @ [CHR 0xC2, CHR 0xA0] @ ''a.js \<newline>x\<newline>b.js''),
                      (''web_recon/waybackurls.txt'', ''/js/q\<newline>a.js'')])) = Inr True
   \<and> writes (trace (snd (extract_js_files example_recon
      (example_world [(''web_recon/katana_crawl.txt'',
                         ''b.js\<newline>'' @ [CHR 0xC2, CHR 0xA0] @ ''a.js \<newline>x\<newline>b.js''),
                      (''web_recon/waybackurls.txt'', ''/js/q\<newline>a.js'')]))))
       = [(''web_recon/js_files.txt'', ''/js/q\<newline>a.js\<newline>b.js\<newline>'')]
   \<and> js_url_set example_recon (example_world [(''web_recon/katana_crawl.txt'', ''x\<newline>y'')]) = {}
   \<and> fst (extract_js_files example_recon
          (example_world [(''web_recon/katana_crawl.txt'', ''x\<newline>y'')])) = Inr False
   \<and> writes (trace (snd (extract_js_files example_recon
          (example_world [(''web_recon/katana_crawl.txt'', ''x\<newline>y'')])))) = []
   \<and> fst (extract_js_files example_recon
          (example_world [(''web_recon/katana_crawl.txt'', ''a.js''),
                          (''web_recon/waybackurls.txt'', ''b.js\<newline>'' @ [CHR 0xFF])]))
       = Inl (UnicodeDecodeError ''web_recon/waybackurls.txt'')
   \<and> writes (trace (snd (extract_js_files example_recon
          (example_world [(''web_recon/katana_crawl.txt'', ''a.js''),
                          (''web_recon/waybackurls.txt'', ''b.js\<newline>'' @ [CHR 0xFF])])))) = []"
proof -
  let ?w1 = "example_world [(''web_recon/katana_crawl.txt'',
                         ''b.js\<newline>'' @ [CHR 0xC2, CHR 0xA0] @ ''a.js \<newline>x\<newline>b.js''),
                      (''web_recon/waybackurls.txt'', ''/js/q\<newline>a.js'')]"
  let ?w2 = "example_world [(''web_recon/katana_crawl.txt'', ''x\<newline>y'')]"
  let ?w3 = "example_world [(''web_recon/katana_crawl.txt'', ''a.js''),
                          (''web_recon/waybackurls.txt'', ''b.js\<newline>'' @ [CHR 0xFF])]"
  have d1: "decodable ?w1 (katana_file example_recon) \<and> decodable ?w1 (wayback_file example_recon)"
    by (simp add: decodable_def example_world_def example_recon_def utf8_valid_def
          is_cont_def byte_def)
  have d2: "decodable ?w2 (katana_file example_recon) \<and> decodable ?w2 (wayback_file example_recon)"
    by (simp add: decodable_def example_world_def example_recon_def utf8_valid_def
          is_cont_def byte_def)
  have d3: "decodable ?w3 (katana_file example_recon)"
    "\<not> decodable ?w3 (wayback_file example_recon)"
    by (simp_all add: decodable_def example_world_def example_recon_def utf8_valid_def
          is_cont_def byte_def)
  have s1: "js_url_set example_recon ?w1 = set [''b.js'', ''a.js'', ''b.js'', ''/js/q'', ''a.js'']"
    unfolding js_url_set_code
    by (simp add: source_lines_def example_world_def example_recon_def
          text_lines_def strip_def is_space_def space_chars_def is_cont_def byte_def)
  have s2: "js_url_set example_recon ?w2 = {}"
    unfolding js_url_set_code
    by (simp add: source_lines_def example_world_def example_recon_def
          text_lines_def)
  have so: "sorted_list_of_set (set [''b.js'', ''a.js'', ''b.js'', ''/js/q'', ''a.js''])
              = [''/js/q'', ''a.js'', ''b.js'']"
    unfolding sorted_list_of_set_sort_remdups by simp
  have n: "js_url_set example_recon ?w1 \<noteq> {}"
    unfolding s1 by simp
  from js_extraction [of ?w1 example_recon] d1 n
  have p1: "fst (extract_js_files example_recon ?w1) = Inr True"
    and p2: "writes (trace (snd (extract_js_files example_recon ?w1))) =
            writes (trace ?w1) @
              [(js_files example_recon,
                concat (map (\<lambda>url. url @ ''\<newline>'')
                  (sorted_list_of_set (js_url_set example_recon ?w1))))]"
    by blast+
  from js_extraction [of ?w2 example_recon] d2 s2
  have q1: "fst (extract_js_files example_recon ?w2) = Inr False"
    and q2: "writes (trace (snd (extract_js_files example_recon ?w2))) = writes (trace ?w2)"
    by blast+
  from js_extraction [of ?w3 example_recon] d3
  have r1: "fst (extract_js_files example_recon ?w3) =
          Inl (UnicodeDecodeError (if \<not> decodable ?w3 (katana_file example_recon)
                                   then katana_file example_recon
                                   else wayback_file example_recon))"
    and r2: "writes (trace (snd (extract_js_files example_recon ?w3))) = writes (trace ?w3)"
    by blast+
  have j: "js_files example_recon = ''web_recon/js_files.txt''"
    "wayback_file example_recon = ''web_recon/waybackurls.txt''"
    by (simp_all add: example_recon_def)
  have t: "writes (trace ?w1) = []" "writes (trace ?w2) = []" "writes (trace ?w3) = []"
    by (simp_all add: example_world_def)
  show ?thesis
    unfolding p1 p2 q1 q2 r1 r2 s2 t j
    unfolding s1 so using d3 by auto
qed

end
